theory Spec2Isabelle
  imports Main "HOL-Library.Word"
begin

section \<open>The ZFS storage driver of lxd/storage_zfs.go\<close>

text \<open>
  The driver is a Go program whose every action on the outside world is a subprocess
  (\<open>zfs\<close>, \<open>zpool\<close>), a file-system call or a call into the container manager. The model
  threads an explicit world through the driver's functions: each outside action is an
  \<open>effect\<close>, answered by an oracle for the environment, and recorded together with its
  answer in the world's trace. Theorems quantify over the oracle, so they hold for every
  behaviour of the environment.
\<close>

subsection \<open>Effects, answers and the world\<close>

datatype effect =
    Exec string "string list"       \<comment> \<open>\<open>exec.Command(name, args...).CombinedOutput()\<close>\<close>
  | TryExec string "string list"    \<comment> \<open>\<open>tryExec(name, args...)\<close>, the retrying runner (not in storage\_zfs.go)\<close>
  | ZfsSend "string list"           \<comment> \<open>\<open>exec.Command("zfs", args...)\<close> piped into the websocket\<close>
  | Sleep nat                       \<comment> \<open>\<open>time.Sleep\<close>, in milliseconds\<close>
  | NewUUID                         \<comment> \<open>\<open>uuid.NewRandom().String()\<close>\<close>
  | IsMountPoint string             \<comment> \<open>\<open>shared.IsMountPoint\<close>\<close>
  | PathExists string               \<comment> \<open>\<open>shared.PathExists\<close>\<close>
  | IsBlockdevPath string           \<comment> \<open>\<open>shared.IsBlockdevPath\<close>\<close>
  | Unmount string                  \<comment> \<open>\<open>syscall.Unmount(path, MNT_DETACH)\<close>\<close>
  | RemoveAll string                \<comment> \<open>\<open>os.RemoveAll\<close>\<close>
  | Remove string                   \<comment> \<open>\<open>os.Remove\<close>\<close>
  | DeleteContainerMountpoint string string string
                                    \<comment> \<open>\<open>deleteContainerMountpoint(mountPoint, path, storageTypeName)\<close>\<close>
  | SnapshotDelete string           \<comment> \<open>\<open>snaps[i].Delete()\<close> on the manager's snapshot of that name\<close>
  | ContainerLoadByName string      \<comment> \<open>\<open>containerLoadByName(s.d, name)\<close>\<close>

text \<open>
  An answer carries the success flag (exit status 0, a nil error, or the truth value of a
  predicate such as \<open>PathExists\<close>) and the text (combined output, error text or UUID).
\<close>

datatype response = Response (ok: bool) (out: string)

datatype 'w world = World (trace: "(effect \<times> response) list") (sys: 'w)

text \<open>A Go \<open>error\<close> value is \<open>failure option\<close>: \<open>None\<close> is \<open>nil\<close>. A runtime panic unwinds
  through every caller, so it travels the same way and is told apart by its constructor.\<close>

datatype failure = Error string | Panic string

text \<open>
  What storage\_zfs.go takes from the rest of the program: the oracle, and the constants
  and pure helpers of package \<open>shared\<close> and of the storage layer that are declared outside
  this file. They are parameters of the model.
\<close>

record 'w env =
  run :: "effect \<Rightarrow> 'w \<Rightarrow> response \<times> 'w"
  SnapshotDelimiter :: char
  IsTrue :: "string \<Rightarrow> bool"
  getContainerMountPoint :: "string \<Rightarrow> string \<Rightarrow> string"
  getSnapshotMountPoint :: "string \<Rightarrow> string \<Rightarrow> string"
  getStoragePoolMountPoint :: "string \<Rightarrow> string"
  VarPath :: "string list \<Rightarrow> string"

definition perform :: "('w, 'x) env_scheme \<Rightarrow> effect \<Rightarrow> 'w world \<Rightarrow> response \<times> 'w world" where
  "perform E e w =
     (case run E e (sys w) of (r, st) \<Rightarrow> (r, World (trace w @ [(e, r)]) st))"

text \<open>The events a run added to the trace.\<close>

definition events :: "'w world \<Rightarrow> 'w world \<Rightarrow> (effect \<times> response) list" where
  "events w w' = drop (length (trace w)) (trace w')"

subsection \<open>The driver object\<close>

text \<open>\<open>storageZfs\<close> with the fields of \<open>storageShared\<close> that the file reads: \<open>s.pool.Name\<close>,
  \<open>s.pool.Config\<close>, \<open>s.volume.Name\<close>, \<open>s.volume.Config\<close> and the storage type name.\<close>

record storageZfs =
  dataset :: string
  poolName :: string
  poolConfig :: "string \<rightharpoonup> string"
  volumeName :: string
  volumeConfig :: "string \<rightharpoonup> string"
  sTypeName :: string

text \<open>Reading a Go \<open>map[string]string\<close>: a missing key reads as the empty string.\<close>

definition config :: "(string \<rightharpoonup> string) \<Rightarrow> string \<Rightarrow> string" where
  "config m k = (case m k of None \<Rightarrow> [] | Some v \<Rightarrow> v)"

text \<open>The prefix of every dataset name, computed at the head of each helper
  (\<open>poolName := s.pool.Name; if s.dataset != "" { poolName = s.dataset }\<close>).\<close>

definition onDiskPoolName :: "'x storageZfs_scheme \<Rightarrow> string" where
  "onDiskPoolName s = (if dataset s \<noteq> [] then dataset s else poolName s)"

subsection \<open>Strings\<close>

text \<open>Modelled from the spec: \<open>shared.StringInSlice\<close> is declared outside storage\_zfs.go; the
  spec reads it as "the list contains the key".\<close>

primrec StringInSlice :: "string \<Rightarrow> string list \<Rightarrow> bool" where
  "StringInSlice key [] = False"
| "StringInSlice key (entry # list) = (if entry = key then True else StringInSlice key list)"

definition quoted :: "string \<Rightarrow> string" where
  "quoted k = CHR 0x22 # k @ [CHR 0x22]"

text \<open>The functions of Go's \<open>strings\<close> and \<open>path/filepath\<close> packages that the file calls.
  Every separator the file passes to \<open>Split\<close> and \<open>SplitN\<close> is a single character, and
  every \<open>SplitN\<close> has the count 2, so these two are modelled for that case.\<close>

definition HasPrefix :: "string \<Rightarrow> string \<Rightarrow> bool" where
  "HasPrefix s p = (take (length p) s = p)"

definition TrimPrefix :: "string \<Rightarrow> string \<Rightarrow> string" where
  "TrimPrefix s p = (if HasPrefix s p then drop (length p) s else s)"

definition TrimRight :: "string \<Rightarrow> string \<Rightarrow> string" where
  "TrimRight s cutset = rev (dropWhile (\<lambda>c. c \<in> set cutset) (rev s))"

primrec Contains :: "string \<Rightarrow> string \<Rightarrow> bool" where
  "Contains [] sub = (sub = [])"
| "Contains (c # cs) sub = (HasPrefix (c # cs) sub \<or> Contains cs sub)"

primrec Split :: "string \<Rightarrow> char \<Rightarrow> string list" where
  "Split [] sep = [[]]"
| "Split (c # cs) sep =
     (if c = sep then [] # Split cs sep
      else (case Split cs sep of [] \<Rightarrow> [[c]] | f # fs \<Rightarrow> (c # f) # fs))"

definition SplitN2 :: "string \<Rightarrow> char \<Rightarrow> string list" where
  "SplitN2 s sep =
     (if sep \<in> set s
      then [takeWhile (\<lambda>c. c \<noteq> sep) s, tl (dropWhile (\<lambda>c. c \<noteq> sep) s)]
      else [s])"

definition IsAbs :: "string \<Rightarrow> bool" where
  "IsAbs p = HasPrefix p ''/''"

definition newline :: char where
  "newline = CHR 0x0A"

subsection \<open>The container object\<close>

text \<open>The manager's \<open>container\<close> interface, as far as the driver calls it: \<open>Name()\<close>,
  \<open>Path()\<close>, \<open>IsSnapshot()\<close>, and \<open>Snapshots()\<close>, whose result is the list of the snapshots
  (each known by its name, the only thing the driver reads of it) and an error.\<close>

record container =
  Name :: string
  Path :: string
  IsSnapshot :: bool
  Snapshots :: "string list \<times> failure option"

subsection \<open>The ZFS command-line adapter\<close>

definition zfsPoolVolumeGet ::
  "('w, 'x) env_scheme \<Rightarrow> 'y storageZfs_scheme \<Rightarrow> string \<Rightarrow> string \<Rightarrow> 'w world
     \<Rightarrow> (string \<times> failure option) \<times> 'w world" where
  "zfsPoolVolumeGet E s path key w =
     (case perform E (Exec ''zfs'' [''get'', ''-H'', ''-p'', ''-o'', ''value'', key,
                                  onDiskPoolName s @ ''/'' @ path]) w of
        (r, w1) \<Rightarrow>
          if \<not> ok r then ((out r, Some (Error (''Failed to get ZFS config: '' @ out r))), w1)
          else ((TrimRight (out r) [newline], None), w1))"

definition zfsPoolVolumeExists ::
  "('w, 'x) env_scheme \<Rightarrow> 'y storageZfs_scheme \<Rightarrow> string \<Rightarrow> 'w world \<Rightarrow> bool \<times> 'w world" where
  "zfsPoolVolumeExists E s path w =
     (case zfsPoolVolumeGet E s path ''name'' w of
        ((output, _), w1) \<Rightarrow> (output = onDiskPoolName s @ ''/'' @ path, w1))"


definition zfsPoolVolumeDestroy ::
  "('w, 'x) env_scheme \<Rightarrow> 'y storageZfs_scheme \<Rightarrow> string \<Rightarrow> 'w world
     \<Rightarrow> failure option \<times> 'w world" where
  "zfsPoolVolumeDestroy E s path w =
     (case zfsPoolVolumeGet E s path ''mountpoint'' w of
        ((mountpoint, Some err), w1) \<Rightarrow> (Some err, w1)
      | ((mountpoint, None), w1) \<Rightarrow>
          (case (if mountpoint \<noteq> ''none''
                 then (case perform E (IsMountPoint mountpoint) w1 of
                         (m, w2) \<Rightarrow>
                           if ok m
                           then (case perform E (Unmount mountpoint) w2 of
                                   (u, w3) \<Rightarrow>
                                     (if ok u then None else Some (Error (out u)), w3))
                           else (None, w2))
                 else (None, w1)) of
             (Some err, w4) \<Rightarrow> (Some err, w4)
           | (None, w4) \<Rightarrow>
               (case perform E (TryExec ''zfs'' [''destroy'', ''-r'',
                                                onDiskPoolName s @ ''/'' @ path]) w4 of
                  (r, w5) \<Rightarrow>
                    if \<not> ok r
                    then (Some (Error (''Failed to destroy ZFS filesystem: '' @ out r)), w5)
                    else (None, w5))))"

definition zfsPoolListSubvolumes ::
  "('w, 'x) env_scheme \<Rightarrow> 'y storageZfs_scheme \<Rightarrow> string \<Rightarrow> 'w world
     \<Rightarrow> (string list \<times> failure option) \<times> 'w world" where
  "zfsPoolListSubvolumes E s path w =
     (case perform E (Exec ''zfs'' [''list'', ''-t'', ''filesystem'', ''-o'', ''name'', ''-H'',
                                  ''-r'', path]) w of
        (r, w1) \<Rightarrow>
          if \<not> ok r
          then (([], Some (Error (''Failed to list ZFS filesystems: '' @ out r))), w1)
          else ((map (\<lambda>entry. TrimPrefix entry (poolName s @ ''/''))
                   (filter (\<lambda>entry. entry \<noteq> [] \<and> entry \<noteq> path) (Split (out r) newline)),
                 None), w1))"

text \<open>The loop of \<open>zfsPoolListSnapshots\<close> over the lines of the output. It appends
  \<open>strings.SplitN(entry, "@", 2)[1]\<close>, which panics on a line without \<open>@\<close>.\<close>

primrec snapshotChildren :: "string \<Rightarrow> string list \<Rightarrow> failure + string list" where
  "snapshotChildren fullPath [] = Inr []"
| "snapshotChildren fullPath (entry # rest) =
     (if entry = [] then snapshotChildren fullPath rest
      else if entry = fullPath then snapshotChildren fullPath rest
      else (case SplitN2 entry CHR ''@'' of
              _ # name # _ \<Rightarrow>
                (case snapshotChildren fullPath rest of
                   Inl p \<Rightarrow> Inl p
                 | Inr children \<Rightarrow> Inr (name # children))
            | _ \<Rightarrow> Inl (Panic ''index out of range [1] with length 1'')))"

definition zfsPoolListSnapshots ::
  "('w, 'x) env_scheme \<Rightarrow> 'y storageZfs_scheme \<Rightarrow> string \<Rightarrow> 'w world
     \<Rightarrow> (string list \<times> failure option) \<times> 'w world" where
  "zfsPoolListSnapshots E s path0 w =
     (let path = TrimRight path0 ''/'';
          fullPath = (if path \<noteq> [] then onDiskPoolName s @ ''/'' @ path else onDiskPoolName s)
      in case perform E (Exec ''zfs'' [''list'', ''-t'', ''snapshot'', ''-o'', ''name'', ''-H'',
                                     ''-d'', ''1'', ''-s'', ''creation'', ''-r'', fullPath]) w of
        (r, w1) \<Rightarrow>
          if \<not> ok r
          then (([], Some (Error (''Failed to list ZFS snapshots: '' @ out r))), w1)
          else (case snapshotChildren fullPath (Split (out r) newline) of
                  Inl p \<Rightarrow> (([], Some p), w1)
                | Inr children \<Rightarrow> ((children, None), w1)))"

definition zfsPoolVolumeSnapshotRemovable ::
  "('w, 'x) env_scheme \<Rightarrow> 'y storageZfs_scheme \<Rightarrow> string \<Rightarrow> string \<Rightarrow> 'w world
     \<Rightarrow> (bool \<times> failure option) \<times> 'w world" where
  "zfsPoolVolumeSnapshotRemovable E s path name w =
     (let snap = (if name = [] then path else path @ ''@'' @ name)
      in case zfsPoolVolumeGet E s snap ''clones'' w of
        ((clones, Some err), w1) \<Rightarrow> ((False, Some err), w1)
      | ((clones, None), w1) \<Rightarrow>
          if clones = ''-'' \<or> clones = [] then ((True, None), w1) else ((False, None), w1))"








subsection \<open>Immutable configuration keys\<close>

definition cannotBeChanged :: "string \<Rightarrow> failure option" where
  "cannotBeChanged k = Some (Error (''The '' @ quoted k @ '' property cannot be changed.''))"

definition StoragePoolUpdate :: "string list \<Rightarrow> failure option" where
  "StoragePoolUpdate changedConfig =
    (if StringInSlice ''size'' changedConfig then cannotBeChanged ''size''
     else if StringInSlice ''source'' changedConfig then cannotBeChanged ''source''
     else if StringInSlice ''volume.size'' changedConfig then cannotBeChanged ''volume.size''
     else if StringInSlice ''volume.block.mount_options'' changedConfig
       then cannotBeChanged ''volume.block.mount_options''
     else if StringInSlice ''volume.block.filesystem'' changedConfig
       then cannotBeChanged ''volume.block.filesystem''
     else if StringInSlice ''volume.lvm.thinpool_name'' changedConfig
       then cannotBeChanged ''volume.lvm.thinpool_name''
     else if StringInSlice ''volume.zfs.use_refquota'' changedConfig
       then cannotBeChanged ''volume.zfs.use_refquota''
     else if StringInSlice ''volume.zfs.remove_snapshots'' changedConfig
       then cannotBeChanged ''volume.zfs.remove_snapshots''
     else if StringInSlice ''zfs.pool_name'' changedConfig then cannotBeChanged ''zfs.pool_name''
     else None)"

definition StoragePoolVolumeUpdate :: "string list \<Rightarrow> failure option" where
  "StoragePoolVolumeUpdate changedConfig =
    (if StringInSlice ''block.mount_options'' changedConfig
       then cannotBeChanged ''block.mount_options''
     else if StringInSlice ''block.filesystem'' changedConfig
       then cannotBeChanged ''block.filesystem''
     else if StringInSlice ''size'' changedConfig then cannotBeChanged ''size''
     else if StringInSlice ''zfs.use_refquota'' changedConfig
       then cannotBeChanged ''zfs.use_refquota''
     else if StringInSlice ''zfs.remove_snapshots'' changedConfig
       then cannotBeChanged ''zfs.remove_snapshots''
     else None)"

text \<open>The loop of \<open>zfsPoolVolumeClone\<close> over the sub-volumes of the source.\<close>

fun zfsPoolVolumeClone_subvols ::
  "('w, 'x) env_scheme \<Rightarrow> 'y storageZfs_scheme \<Rightarrow> string \<Rightarrow> string \<Rightarrow> string \<Rightarrow> string list
     \<Rightarrow> 'w world \<Rightarrow> failure option \<times> 'w world" where
  "zfsPoolVolumeClone_subvols E s source name dest [] w = (None, w)"
| "zfsPoolVolumeClone_subvols E s source name dest (sub # subvols) w =
     (case zfsPoolListSnapshots E s sub w of
        ((snaps, Some err), w1) \<Rightarrow> (Some err, w1)
      | ((snaps, None), w1) \<Rightarrow>
          if \<not> StringInSlice name snaps
          then zfsPoolVolumeClone_subvols E s source name dest subvols w1
          else
            let destSubvol = dest @ TrimPrefix sub source;
                snapshotMntPoint = getSnapshotMountPoint E (poolName s) destSubvol
            in case perform E (Exec ''zfs'' [''clone'', ''-p'', ''-o'',
                                  ''mountpoint='' @ snapshotMntPoint,
                                  onDiskPoolName s @ ''/'' @ sub @ ''@'' @ name,
                                  onDiskPoolName s @ ''/'' @ destSubvol]) w1 of
                 (r, w2) \<Rightarrow>
                   if \<not> ok r
                   then (Some (Error (''Failed to clone the sub-volume: '' @ out r)), w2)
                   else zfsPoolVolumeClone_subvols E s source name dest subvols w2)"

definition zfsPoolVolumeClone ::
  "('w, 'x) env_scheme \<Rightarrow> 'y storageZfs_scheme \<Rightarrow> string \<Rightarrow> string \<Rightarrow> string \<Rightarrow> string
     \<Rightarrow> 'w world \<Rightarrow> failure option \<times> 'w world" where
  "zfsPoolVolumeClone E s source name dest mountpoint w =
     (case perform E (Exec ''zfs'' [''clone'', ''-p'', ''-o'', ''mountpoint='' @ mountpoint,
                                   onDiskPoolName s @ ''/'' @ source @ ''@'' @ name,
                                   onDiskPoolName s @ ''/'' @ dest]) w of
        (r, w1) \<Rightarrow>
          if \<not> ok r then (Some (Error (''Failed to clone the filesystem: '' @ out r)), w1)
          else
            (case zfsPoolListSubvolumes E s (onDiskPoolName s @ ''/'' @ source) w1 of
               ((subvols, Some err), w2) \<Rightarrow> (Some err, w2)
             | ((subvols, None), w2) \<Rightarrow>
                 zfsPoolVolumeClone_subvols E s source name dest subvols w2))"

subsection \<open>Snapshot start and stop\<close>

definition ContainerSnapshotStart ::
  "('w, 'x) env_scheme \<Rightarrow> 'y storageZfs_scheme \<Rightarrow> 'z container_scheme \<Rightarrow> 'w world
     \<Rightarrow> failure option \<times> 'w world" where
  "ContainerSnapshotStart E s c w =
     (let fields = SplitN2 (Name c) (SnapshotDelimiter E)
      in if length fields < 2 then (Some (Error (''Invalid snapshot name: '' @ Name c)), w)
         else
           let cName = fields ! 0;
               sName = fields ! 1;
               sourceFs = ''containers/'' @ cName;
               sourceSnap = ''snapshot-'' @ sName;
               destFs = ''snapshots/'' @ cName @ ''/'' @ sName;
               snapshotMntPoint = getSnapshotMountPoint E (poolName s) (Name c)
           in zfsPoolVolumeClone E s sourceFs sourceSnap destFs snapshotMntPoint w)"

definition ContainerSnapshotStop ::
  "('w, 'x) env_scheme \<Rightarrow> 'y storageZfs_scheme \<Rightarrow> 'z container_scheme \<Rightarrow> 'w world
     \<Rightarrow> failure option \<times> 'w world" where
  "ContainerSnapshotStop E s c w =
     (let fields = SplitN2 (Name c) (SnapshotDelimiter E)
      in if length fields < 2 then (Some (Error (''Invalid snapshot name: '' @ Name c)), w)
         else
           let cName = fields ! 0;
               sName = fields ! 1;
               destFs = ''snapshots/'' @ cName @ ''/'' @ sName
           in case zfsPoolVolumeDestroy E s destFs w of
                (Some err, w1) \<Rightarrow> (Some err, w1)
              | (None, w1) \<Rightarrow>
                  (case perform E (RemoveAll (Path c)) w1 of
                     (r, w2) \<Rightarrow> (if ok r then None else Some (Error (out r)), w2)))"

subsection \<open>Restore pre-check, quota and usage\<close>

definition ContainerCanRestore ::
  "('w, 'x) env_scheme \<Rightarrow> 'y storageZfs_scheme \<Rightarrow> 'z container_scheme \<Rightarrow> 'z container_scheme
     \<Rightarrow> failure option" where
  "ContainerCanRestore E s c sourceContainer =
     (case Snapshots c of
        (snaps, Some err) \<Rightarrow> Some err
      | (snaps, None) \<Rightarrow>
          if snaps = [] then Some (Panic ''index out of range [-1]'')
          else if snaps ! (length snaps - 1) \<noteq> Name sourceContainer
          then (if \<not> IsTrue E (config (volumeConfig s) ''zfs.remove_snapshots'')
                then Some (Error (''ZFS can only restore from the latest snapshot. '' @
                     ''Delete newer snapshots or copy the snapshot into a new container instead.''))
                else None)
          else None)"



subsection \<open>Test fixtures\<close>

text \<open>Two concrete environments for evaluating the model: a table of fixed answers (an
  effect not in the table succeeds with empty output), and a script of answers handed out
  in order (once it is used up, every effect fails).\<close>

definition tableOracle :: "(effect \<times> response) list \<Rightarrow> effect \<Rightarrow> unit \<Rightarrow> response \<times> unit" where
  "tableOracle tbl e u = ((case map_of tbl e of Some r \<Rightarrow> r | None \<Rightarrow> Response True []), u)"

definition replayOracle :: "effect \<Rightarrow> response list \<Rightarrow> response \<times> response list" where
  "replayOracle e rs = (case rs of [] \<Rightarrow> (Response False [], []) | r # rest \<Rightarrow> (r, rest))"

definition testEnv :: "(effect \<Rightarrow> 'w \<Rightarrow> response \<times> 'w) \<Rightarrow> 'w env" where
  "testEnv oracle =
     \<lparr> run = oracle,
       SnapshotDelimiter = CHR ''/'',
       IsTrue = (\<lambda>v. v = ''true''),
       getContainerMountPoint =
         (\<lambda>pool name. ''/var/lib/lxd/storage-pools/'' @ pool @ ''/containers/'' @ name),
       getSnapshotMountPoint =
         (\<lambda>pool name. ''/var/lib/lxd/storage-pools/'' @ pool @ ''/snapshots/'' @ name),
       getStoragePoolMountPoint = (\<lambda>pool. ''/var/lib/lxd/storage-pools/'' @ pool),
       VarPath = (\<lambda>parts. ''/var/lib/lxd'' @ concat (map (\<lambda>p. ''/'' @ p) parts)) \<rparr>"

definition testPool :: storageZfs where
  "testPool = \<lparr> dataset = [], poolName = ''p'', poolConfig = Map.empty, volumeName = ''c1'',
                 volumeConfig = Map.empty, sTypeName = ''zfs'' \<rparr>"

definition testContainer :: "string \<Rightarrow> container" where
  "testContainer n = \<lparr> Name = n, Path = ''/var/lib/lxd/containers/'' @ n, IsSnapshot = False,
                        Snapshots = ([], None) \<rparr>"

subsection \<open>Deleting the pool\<close>

definition zfsPoolDelete ::
  "('w, 'x) env_scheme \<Rightarrow> 'y storageZfs_scheme \<Rightarrow> 'w world \<Rightarrow> failure option \<times> 'w world" where
  "zfsPoolDelete E s w =
     (case perform E (Exec ''zpool'' [''destroy'', ''-f'', poolName s]) w of
        (r, w1) \<Rightarrow>
          if \<not> ok r then (Some (Error (''Failed to delete the ZFS pool: '' @ out r)), w1)
          else
            let vdev = config (poolConfig s) ''source''
            in if IsAbs vdev
               then (case perform E (IsBlockdevPath vdev) w1 of
                       (b, w2) \<Rightarrow>
                         if \<not> ok b
                         then (case perform E (RemoveAll vdev) w2 of (_, w3) \<Rightarrow> (None, w3))
                         else (None, w2))
               else (None, w1))"

definition StoragePoolDelete ::
  "('w, 'x) env_scheme \<Rightarrow> 'y storageZfs_scheme \<Rightarrow> 'w world \<Rightarrow> failure option \<times> 'w world" where
  "StoragePoolDelete E s w =
     (case (if dataset s = [] \<or> (dataset s \<noteq> [] \<and> \<not> Contains (dataset s) ''/'')
            then zfsPoolDelete E s w else (None, w)) of
        (Some err, w1) \<Rightarrow> (Some err, w1)
      | (None, w1) \<Rightarrow>
          let storagePoolMntPoint = getStoragePoolMountPoint E (poolName s)
          in case perform E (PathExists storagePoolMntPoint) w1 of
               (p, w2) \<Rightarrow>
                 if ok p
                 then (case perform E (RemoveAll storagePoolMntPoint) w2 of
                         (r, w3) \<Rightarrow> (if ok r then None else Some (Error (out r)), w3))
                 else (None, w2))"

subsection \<open>Renaming a volume\<close>

text \<open>The loop \<open>for i := 0; i < 20; i++\<close> of \<open>zfsPoolVolumeRename\<close>; \<open>output\<close> is the
  variable of that name, the output of the latest attempt.\<close>

function zfsPoolVolumeRename_loop ::
  "('w, 'x) env_scheme \<Rightarrow> 'y storageZfs_scheme \<Rightarrow> string \<Rightarrow> string \<Rightarrow> nat \<Rightarrow> string
     \<Rightarrow> 'w world \<Rightarrow> failure option \<times> 'w world" where
  "zfsPoolVolumeRename_loop E s source dest i output w =
     (if i < 20
      then
        (case perform E (Exec ''zfs'' [''rename'', ''-p'',
                                      onDiskPoolName s @ ''/'' @ source,
                                      onDiskPoolName s @ ''/'' @ dest]) w of
           (r, w1) \<Rightarrow>
             if ok r then (None, w1)
             else
               (case zfsPoolVolumeExists E s source w1 of
                  (sourceExists, w2) \<Rightarrow>
                    (case (if \<not> sourceExists then zfsPoolVolumeExists E s dest w2
                           else (False, w2)) of
                       (renamed, w3) \<Rightarrow>
                         if renamed then (None, w3)
                         else
                           (case perform E (Sleep 500) w3 of
                              (_, w4) \<Rightarrow>
                                zfsPoolVolumeRename_loop E s source dest (i + 1) (out r) w4))))
      else (Some (Error (''Failed to rename ZFS filesystem: '' @ output)), w))"
  by pat_completeness auto
termination
  by (relation "measure (\<lambda>(E, s, source, dest, i, output, w). 20 - i)") auto

declare zfsPoolVolumeRename_loop.simps [simp del]

definition zfsPoolVolumeRename ::
  "('w, 'x) env_scheme \<Rightarrow> 'y storageZfs_scheme \<Rightarrow> string \<Rightarrow> string \<Rightarrow> 'w world
     \<Rightarrow> failure option \<times> 'w world" where
  "zfsPoolVolumeRename E s source dest w = zfsPoolVolumeRename_loop E s source dest 0 [] w"

text \<open>Names for the two commands of the loop and for the way \<open>zfsPoolVolumeExists\<close> reads
  the answer to its command, to state what a trace of the loop looks like.\<close>

definition renameCmd :: "'y storageZfs_scheme \<Rightarrow> string \<Rightarrow> string \<Rightarrow> effect" where
  "renameCmd s source dest =
     Exec ''zfs'' [''rename'', ''-p'', onDiskPoolName s @ ''/'' @ source,
                   onDiskPoolName s @ ''/'' @ dest]"

definition existsCmd :: "'y storageZfs_scheme \<Rightarrow> string \<Rightarrow> effect" where
  "existsCmd s path =
     Exec ''zfs'' [''get'', ''-H'', ''-p'', ''-o'', ''value'', ''name'',
                   onDiskPoolName s @ ''/'' @ path]"

definition saysExists :: "'y storageZfs_scheme \<Rightarrow> string \<Rightarrow> response \<Rightarrow> bool" where
  "saysExists s path r =
     ((if ok r then TrimRight (out r) [newline] else out r) = onDiskPoolName s @ ''/'' @ path)"

text \<open>The runs the spec allows with \<open>n\<close> attempts left: an attempt that succeeds ends the
  run with success; so does a failed attempt after which the source is gone and the
  destination is there; any other attempt is followed by a sleep of 500 ms and the next
  attempt; with no attempt left the run ends with the error that carries the latest output.\<close>

inductive renameRun ::
  "'y storageZfs_scheme \<Rightarrow> string \<Rightarrow> string \<Rightarrow> nat \<Rightarrow> string \<Rightarrow> (effect \<times> response) list
     \<Rightarrow> failure option \<Rightarrow> bool"
  for s :: "'y storageZfs_scheme" and source :: string and dest :: string where
  exhausted:
    "renameRun s source dest 0 output []
       (Some (Error (''Failed to rename ZFS filesystem: '' @ output)))"
| succeeded:
    "ok r \<Longrightarrow> renameRun s source dest (Suc n) output [(renameCmd s source dest, r)] None"
| moved:
    "\<not> ok r \<Longrightarrow> \<not> saysExists s source a \<Longrightarrow> saysExists s dest b \<Longrightarrow>
     renameRun s source dest (Suc n) output
       [(renameCmd s source dest, r), (existsCmd s source, a), (existsCmd s dest, b)] None"
| retry_source_present:
    "\<not> ok r \<Longrightarrow> saysExists s source a \<Longrightarrow> renameRun s source dest n (out r) T res \<Longrightarrow>
     renameRun s source dest (Suc n) output
       ((renameCmd s source dest, r) # (existsCmd s source, a) # (Sleep 500, x) # T) res"
| retry_both_absent:
    "\<not> ok r \<Longrightarrow> \<not> saysExists s source a \<Longrightarrow> \<not> saysExists s dest b \<Longrightarrow>
     renameRun s source dest n (out r) T res \<Longrightarrow>
     renameRun s source dest (Suc n) output
       ((renameCmd s source dest, r) # (existsCmd s source, a) # (existsCmd s dest, b)
          # (Sleep 500, x) # T) res"

subsection \<open>Snapshots of a volume\<close>

definition zfsPoolVolumeSnapshotCreate ::
  "('w, 'x) env_scheme \<Rightarrow> 'y storageZfs_scheme \<Rightarrow> string \<Rightarrow> string \<Rightarrow> 'w world
     \<Rightarrow> failure option \<times> 'w world" where
  "zfsPoolVolumeSnapshotCreate E s path name w =
     (case perform E (Exec ''zfs'' [''snapshot'', ''-r'',
                                   onDiskPoolName s @ ''/'' @ path @ ''@'' @ name]) w of
        (r, w1) \<Rightarrow>
          if \<not> ok r then (Some (Error (''Failed to create ZFS snapshot: '' @ out r)), w1)
          else (None, w1))"

definition zfsPoolVolumeSnapshotDestroy ::
  "('w, 'x) env_scheme \<Rightarrow> 'y storageZfs_scheme \<Rightarrow> string \<Rightarrow> string \<Rightarrow> 'w world
     \<Rightarrow> failure option \<times> 'w world" where
  "zfsPoolVolumeSnapshotDestroy E s path name w =
     (case perform E (Exec ''zfs'' [''destroy'', ''-r'',
                                   onDiskPoolName s @ ''/'' @ path @ ''@'' @ name]) w of
        (r, w1) \<Rightarrow>
          if \<not> ok r then (Some (Error (''Failed to destroy ZFS snapshot: '' @ out r)), w1)
          else (None, w1))"

subsection \<open>The migration source\<close>

text \<open>\<open>zfsMigrationSourceDriver\<close>. The snapshot containers in \<open>snapshots\<close> are known by
  their names, as in \<open>container.Snapshots\<close>.\<close>

record zfsMigrationSourceDriver =
  container :: container
  snapshots :: "string list"
  zfsSnapshotNames :: "string list"
  zfs :: storageZfs
  runningSnapName :: string
  stoppedSnapName :: string

text \<open>\<open>send\<close> starts \<open>zfs send\<close> and streams its standard output into the websocket; the
  whole of it is one effect, which fails when a pipe cannot be opened, the process cannot
  be started or it exits with an error. The progress wrapper only reports and is left out.\<close>

definition send ::
  "('w, 'x) env_scheme \<Rightarrow> zfsMigrationSourceDriver \<Rightarrow> string \<Rightarrow> string \<Rightarrow> 'w world
     \<Rightarrow> failure option \<times> 'w world" where
  "send E d zfsName zfsParent w =
     (let fields = SplitN2 (Name (container d)) (SnapshotDelimiter E);
          pool = onDiskPoolName (zfs d);
          args = [''send'', pool @ ''/containers/'' @ fields ! 0 @ ''@'' @ zfsName]
                 @ (if zfsParent \<noteq> []
                    then [''-i'', pool @ ''/containers/'' @ Name (container d) @ ''@'' @ zfsParent]
                    else [])
      in case perform E (ZfsSend args) w of
           (r, w1) \<Rightarrow> (if ok r then None else Some (Error (out r)), w1))"

text \<open>The loop \<open>for i, snap := range s.zfsSnapshotNames\<close> of \<open>SendWhileRunning\<close>, with its
  variable \<open>lastSnap\<close>.\<close>

function SendWhileRunning_loop ::
  "('w, 'x) env_scheme \<Rightarrow> zfsMigrationSourceDriver \<Rightarrow> nat \<Rightarrow> string \<Rightarrow> 'w world
     \<Rightarrow> (failure option \<times> string) \<times> 'w world" where
  "SendWhileRunning_loop E d i lastSnap w =
     (if i < length (zfsSnapshotNames d)
      then
        let snap = zfsSnapshotNames d ! i;
            prev = (if i > 0 then zfsSnapshotNames d ! (i - 1) else [])
        in case send E d snap prev w of
             (Some err, w1) \<Rightarrow> ((Some err, snap), w1)
           | (None, w1) \<Rightarrow> SendWhileRunning_loop E d (i + 1) snap w1
      else ((None, lastSnap), w))"
  by pat_completeness auto
termination
  by (relation "measure (\<lambda>(E, d, i, lastSnap, w). length (zfsSnapshotNames d) - i)") auto

declare SendWhileRunning_loop.simps [simp del]

definition SendWhileRunning ::
  "('w, 'x) env_scheme \<Rightarrow> zfsMigrationSourceDriver \<Rightarrow> 'w world
     \<Rightarrow> (failure option \<times> zfsMigrationSourceDriver) \<times> 'w world" where
  "SendWhileRunning E d w =
     (if IsSnapshot (container d)
      then
        let fields = SplitN2 (Name (container d)) (SnapshotDelimiter E)
        in if length fields < 2
           then ((Some (Panic ''index out of range [1] with length 1''), d), w)
           else (case send E d (''snapshot-'' @ fields ! 1) [] w of
                   (err, w1) \<Rightarrow> ((err, d), w1))
      else
        (case SendWhileRunning_loop E d 0 [] w of
           ((Some err, lastSnap), w1) \<Rightarrow> ((Some err, d), w1)
         | ((None, lastSnap), w1) \<Rightarrow>
             (case perform E NewUUID w1 of
                (u, w2) \<Rightarrow>
                  let d1 = d\<lparr>runningSnapName := ''migration-send-'' @ out u\<rparr>
                  in case zfsPoolVolumeSnapshotCreate E (zfs d1)
                            (''containers/'' @ Name (container d1)) (runningSnapName d1) w2 of
                       (Some err, w3) \<Rightarrow> ((Some err, d1), w3)
                     | (None, w3) \<Rightarrow>
                         (case send E d1 (runningSnapName d1) lastSnap w3 of
                            (err, w4) \<Rightarrow> ((err, d1), w4)))))"

definition SendAfterCheckpoint ::
  "('w, 'x) env_scheme \<Rightarrow> zfsMigrationSourceDriver \<Rightarrow> 'w world
     \<Rightarrow> (failure option \<times> zfsMigrationSourceDriver) \<times> 'w world" where
  "SendAfterCheckpoint E d w =
     (case perform E NewUUID w of
        (u, w1) \<Rightarrow>
          let d1 = d\<lparr>stoppedSnapName := ''migration-send-'' @ out u\<rparr>
          in case zfsPoolVolumeSnapshotCreate E (zfs d1)
                    (''containers/'' @ Name (container d1)) (stoppedSnapName d1) w1 of
               (Some err, w2) \<Rightarrow> ((Some err, d1), w2)
             | (None, w2) \<Rightarrow>
                 (case send E d1 (stoppedSnapName d1) (runningSnapName d1) w2 of
                    (err, w3) \<Rightarrow> ((err, d1), w3)))"

text \<open>The loop of \<open>MigrationSource\<close> over the ZFS snapshots of the container: it keeps
  those named \<open>snapshot-...\<close> and loads the manager's snapshot of each.\<close>

fun MigrationSource_loop ::
  "('w, 'x) env_scheme \<Rightarrow> 'z container_scheme \<Rightarrow> string list \<Rightarrow> zfsMigrationSourceDriver
     \<Rightarrow> 'w world \<Rightarrow> (zfsMigrationSourceDriver option \<times> failure option) \<times> 'w world" where
  "MigrationSource_loop E ct [] driver w = ((Some driver, None), w)"
| "MigrationSource_loop E ct (snap # rest) driver w =
     (if \<not> HasPrefix snap ''snapshot-'' then MigrationSource_loop E ct rest driver w
      else
        let lxdName = Name ct @ [SnapshotDelimiter E] @ drop (length ''snapshot-'') snap
        in case perform E (ContainerLoadByName lxdName) w of
             (r, w1) \<Rightarrow>
               if \<not> ok r then ((None, Some (Error (out r))), w1)
               else MigrationSource_loop E ct rest
                      (driver\<lparr>snapshots := snapshots driver @ [lxdName],
                              zfsSnapshotNames := zfsSnapshotNames driver @ [snap]\<rparr>) w1)"

definition MigrationSource ::
  "('w, 'x) env_scheme \<Rightarrow> storageZfs \<Rightarrow> container \<Rightarrow> 'w world
     \<Rightarrow> (zfsMigrationSourceDriver option \<times> failure option) \<times> 'w world" where
  "MigrationSource E s ct w =
     (if IsSnapshot ct
      then ((Some \<lparr>container = ct, snapshots = [], zfsSnapshotNames = [], zfs = s,
                   runningSnapName = [], stoppedSnapName = []\<rparr>, None), w)
      else
        (case zfsPoolListSnapshots E s (''containers/'' @ Name ct) w of
           ((snaps, Some err), w1) \<Rightarrow> ((None, Some err), w1)
         | ((snaps, None), w1) \<Rightarrow>
             MigrationSource_loop E ct snaps
               \<lparr>container = ct, snapshots = [], zfsSnapshotNames = [], zfs = s,
                 runningSnapName = [], stoppedSnapName = []\<rparr> w1))"

text \<open>The commands the spec expects of \<open>SendWhileRunning\<close> for a container that is not a
  snapshot: one \<open>zfs send\<close> per snapshot name in order, the \<open>i\<close>-th with \<open>-i\<close> and the name
  before it when it is not the first; then a snapshot \<open>migration-send-<uuid>\<close> and its
  \<open>zfs send\<close>, incremental from the last name when there is one.\<close>

definition sendCmd :: "string \<Rightarrow> string \<Rightarrow> string \<Rightarrow> string option \<Rightarrow> effect" where
  "sendCmd pool fsName zfsName parent =
     ZfsSend ([''send'', pool @ ''/containers/'' @ fsName @ ''@'' @ zfsName]
              @ (case parent of None \<Rightarrow> [] | Some p \<Rightarrow> [''-i'', p]))"

definition expectedSends :: "string \<Rightarrow> string \<Rightarrow> string \<Rightarrow> string list \<Rightarrow> effect list" where
  "expectedSends pool fsName cName names =
     map (\<lambda>i. sendCmd pool fsName (names ! i)
                 (if i > 0 then Some (pool @ ''/containers/'' @ cName @ ''@'' @ names ! (i - 1))
                  else None))
         [0..<length names]"

definition expectedRunning ::
  "string \<Rightarrow> string \<Rightarrow> string \<Rightarrow> string list \<Rightarrow> string \<Rightarrow> effect list" where
  "expectedRunning pool fsName cName names uuid =
     expectedSends pool fsName cName names
     @ [NewUUID,
        Exec ''zfs'' [''snapshot'', ''-r'',
                      pool @ ''/containers/'' @ cName @ ''@migration-send-'' @ uuid],
        sendCmd pool fsName (''migration-send-'' @ uuid)
          (if names = [] then None
           else Some (pool @ ''/containers/'' @ cName @ ''@'' @ last names))]"

text \<open>The \<open>i\<close>-th send of the loop, for a driver.\<close>

definition sendOf :: "('w, 'x) env_scheme \<Rightarrow> zfsMigrationSourceDriver \<Rightarrow> nat \<Rightarrow> effect" where
  "sendOf E d i =
     sendCmd (onDiskPoolName (zfs d)) (SplitN2 (Name (container d)) (SnapshotDelimiter E) ! 0)
       (zfsSnapshotNames d ! i)
       (if i > 0 then Some (onDiskPoolName (zfs d) @ ''/containers/'' @ Name (container d) @ ''@''
                            @ zfsSnapshotNames d ! (i - 1))
        else None)"

subsection \<open>Restoring a snapshot\<close>

text \<open>The loop of \<open>zfsPoolVolumeSnapshotRestore\<close> over the sub-volumes.\<close>

fun zfsPoolVolumeSnapshotRestore_subvols ::
  "('w, 'x) env_scheme \<Rightarrow> 'y storageZfs_scheme \<Rightarrow> string \<Rightarrow> string list \<Rightarrow> 'w world
     \<Rightarrow> failure option \<times> 'w world" where
  "zfsPoolVolumeSnapshotRestore_subvols E s name [] w = (None, w)"
| "zfsPoolVolumeSnapshotRestore_subvols E s name (sub # subvols) w =
     (case zfsPoolListSnapshots E s sub w of
        ((snaps, Some err), w1) \<Rightarrow> (Some err, w1)
      | ((snaps, None), w1) \<Rightarrow>
          if \<not> StringInSlice name snaps
          then zfsPoolVolumeSnapshotRestore_subvols E s name subvols w1
          else
            (case perform E (TryExec ''zfs'' [''rollback'',
                                onDiskPoolName s @ ''/'' @ sub @ ''@'' @ name]) w1 of
               (r, w2) \<Rightarrow>
                 if \<not> ok r
                 then (Some (Error (''Failed to restore ZFS sub-volume snapshot: '' @ out r)), w2)
                 else zfsPoolVolumeSnapshotRestore_subvols E s name subvols w2))"

definition zfsPoolVolumeSnapshotRestore ::
  "('w, 'x) env_scheme \<Rightarrow> 'y storageZfs_scheme \<Rightarrow> string \<Rightarrow> string \<Rightarrow> 'w world
     \<Rightarrow> failure option \<times> 'w world" where
  "zfsPoolVolumeSnapshotRestore E s path name w =
     (case perform E (TryExec ''zfs'' [''rollback'',
                         onDiskPoolName s @ ''/'' @ path @ ''@'' @ name]) w of
        (r, w1) \<Rightarrow>
          if \<not> ok r then (Some (Error (''Failed to restore ZFS snapshot: '' @ out r)), w1)
          else
            (case zfsPoolListSubvolumes E s (onDiskPoolName s @ ''/'' @ path) w1 of
               ((subvols, Some err), w2) \<Rightarrow> (Some err, w2)
             | ((subvols, None), w2) \<Rightarrow>
                 zfsPoolVolumeSnapshotRestore_subvols E s name subvols w2))"

text \<open>The loop \<open>for i := len(snaps) - 1; i != 0; i--\<close> of \<open>ContainerRestore\<close>. The index is
  a Go \<open>int\<close>; \<open>snaps[i]\<close> panics when it is out of range, which happens at once when the
  list is empty.\<close>

function ContainerRestore_loop ::
  "('w, 'x) env_scheme \<Rightarrow> string list \<Rightarrow> string \<Rightarrow> int \<Rightarrow> 'w world
     \<Rightarrow> failure option \<times> 'w world" where
  "ContainerRestore_loop E snaps sourceName i w =
     (if i \<noteq> 0
      then
        if i < 0 \<or> int (length snaps) \<le> i then (Some (Panic ''index out of range''), w)
        else if snaps ! nat i = sourceName then (None, w)
        else
          (case perform E (SnapshotDelete (snaps ! nat i)) w of
             (r, w1) \<Rightarrow>
               if \<not> ok r then (Some (Error (out r)), w1)
               else ContainerRestore_loop E snaps sourceName (i - 1) w1)
      else (None, w))"
  by pat_completeness auto
termination
  by (relation "measure (\<lambda>(E, snaps, sourceName, i, w). nat i)") auto

declare ContainerRestore_loop.simps [simp del]

definition ContainerRestore ::
  "('w, 'x) env_scheme \<Rightarrow> 'y storageZfs_scheme \<Rightarrow> 'z container_scheme \<Rightarrow> 'z container_scheme
     \<Rightarrow> 'w world \<Rightarrow> failure option \<times> 'w world" where
  "ContainerRestore E s c sourceContainer w =
     (case Snapshots c of
        (snaps, Some err) \<Rightarrow> (Some err, w)
      | (snaps, None) \<Rightarrow>
          (case ContainerRestore_loop E snaps (Name sourceContainer)
                  (int (length snaps) - 1) w of
             (Some err, w1) \<Rightarrow> (Some err, w1)
           | (None, w1) \<Rightarrow>
               let fields = SplitN2 (Name sourceContainer) (SnapshotDelimiter E)
               in if length fields < 2
                  then (Some (Panic ''index out of range [1] with length 1''), w1)
                  else
                    let cName = fields ! 0;
                        snapName = ''snapshot-'' @ fields ! 1
                    in zfsPoolVolumeSnapshotRestore E s (''containers/'' @ cName) snapName w1))"

text \<open>Names for the commands of a restore and for what the driver reads from the two
  listings, to state what the trace of a restore looks like.\<close>

definition rollbackCmd :: "'y storageZfs_scheme \<Rightarrow> string \<Rightarrow> string \<Rightarrow> effect" where
  "rollbackCmd s path name =
     TryExec ''zfs'' [''rollback'', onDiskPoolName s @ ''/'' @ path @ ''@'' @ name]"

definition listSubvolumesCmd :: "string \<Rightarrow> effect" where
  "listSubvolumesCmd path =
     Exec ''zfs'' [''list'', ''-t'', ''filesystem'', ''-o'', ''name'', ''-H'', ''-r'', path]"

definition snapshotsFullPath :: "'y storageZfs_scheme \<Rightarrow> string \<Rightarrow> string" where
  "snapshotsFullPath s path =
     (if TrimRight path ''/'' \<noteq> [] then onDiskPoolName s @ ''/'' @ TrimRight path ''/''
      else onDiskPoolName s)"

definition listSnapshotsCmd :: "'y storageZfs_scheme \<Rightarrow> string \<Rightarrow> effect" where
  "listSnapshotsCmd s path =
     Exec ''zfs'' [''list'', ''-t'', ''snapshot'', ''-o'', ''name'', ''-H'', ''-d'', ''1'',
                   ''-s'', ''creation'', ''-r'', snapshotsFullPath s path]"

definition subvolumesListed :: "'y storageZfs_scheme \<Rightarrow> string \<Rightarrow> response \<Rightarrow> string list" where
  "subvolumesListed s path r =
     map (\<lambda>entry. TrimPrefix entry (poolName s @ ''/''))
       (filter (\<lambda>entry. entry \<noteq> [] \<and> entry \<noteq> path) (Split (out r) newline))"

definition snapshotsListed :: "'y storageZfs_scheme \<Rightarrow> string \<Rightarrow> response \<Rightarrow> string list option" where
  "snapshotsListed s path r =
     (if \<not> ok r then None
      else (case snapshotChildren (snapshotsFullPath s path) (Split (out r) newline) of
              Inl p \<Rightarrow> None | Inr children \<Rightarrow> Some children))"

text \<open>The successful traces of the loop over the sub-volumes: for each sub-volume in
  order, its snapshots are listed, and it is rolled back, with success, exactly when the
  listing holds the snapshot name.\<close>

fun subvolRollbacks ::
  "'y storageZfs_scheme \<Rightarrow> string \<Rightarrow> string list \<Rightarrow> (effect \<times> response) list \<Rightarrow> bool" where
  "subvolRollbacks s name [] T = (T = [])"
| "subvolRollbacks s name (sub # subvols) [] = False"
| "subvolRollbacks s name (sub # subvols) ((e, r) # T) =
     (e = listSnapshotsCmd s sub \<and>
      (case snapshotsListed s sub r of
         None \<Rightarrow> False
       | Some snaps \<Rightarrow>
           if name \<in> set snaps
           then (case T of
                   [] \<Rightarrow> False
                 | (e2, r2) # T2 \<Rightarrow>
                     e2 = rollbackCmd s sub name \<and> ok r2 \<and> subvolRollbacks s name subvols T2)
           else subvolRollbacks s name subvols T))"

text \<open>A pool on the dataset \<open>tank/lxd\<close>, and answers of ZFS for a container \<open>c\<close> with one
  sub-volume that has the snapshot \<open>snapshot-s0\<close>; the dataset the third command names
  does not exist.\<close>

definition datasetPool :: storageZfs where
  "datasetPool = testPool\<lparr>dataset := ''tank/lxd''\<rparr>"

definition subvolumeTable :: "(effect \<times> response) list" where
  "subvolumeTable =
     [(listSubvolumesCmd ''tank/lxd/containers/c'',
       Response True (''tank/lxd/containers/c'' @ [newline] @ ''tank/lxd/containers/c/sub''
                      @ [newline])),
      (Exec ''zfs'' [''list'', ''-t'', ''snapshot'', ''-o'', ''name'', ''-H'', ''-d'', ''1'',
                     ''-s'', ''creation'', ''-r'', ''tank/lxd/containers/c/sub''],
       Response True (''tank/lxd/containers/c/sub@snapshot-s0'' @ [newline])),
      (Exec ''zfs'' [''list'', ''-t'', ''snapshot'', ''-o'', ''name'', ''-H'', ''-d'', ''1'',
                     ''-s'', ''creation'', ''-r'', ''tank/lxd/tank/lxd/containers/c/sub''],
       Response False ''cannot open tank/lxd/tank/lxd/containers/c/sub: dataset does not exist'')]"

subsection \<open>Traces that the environment answered\<close>

text \<open>A trace was answered by the environment from a state when each of its responses is
  the one the oracle gives at the state reached so far; \<open>stateAfter\<close> is the state the
  oracle is left in.\<close>

fun stateAfter :: "('w, 'x) env_scheme \<Rightarrow> 'w \<Rightarrow> (effect \<times> response) list \<Rightarrow> 'w" where
  "stateAfter E st [] = st"
| "stateAfter E st ((e, r) # T) = stateAfter E (snd (run E e st)) T"

fun answered :: "('w, 'x) env_scheme \<Rightarrow> 'w \<Rightarrow> (effect \<times> response) list \<Rightarrow> bool" where
  "answered E st [] = True"
| "answered E st ((e, r) # T) = (r = fst (run E e st) \<and> answered E (snd (run E e st)) T)"

text \<open>\<open>faithful E w w'\<close>: the world \<open>w'\<close> comes from \<open>w\<close> by performing effects: its trace
  is that of \<open>w\<close> followed by events the oracle answered, and its state is the one the
  oracle reached.\<close>

definition faithful :: "('w, 'x) env_scheme \<Rightarrow> 'w world \<Rightarrow> 'w world \<Rightarrow> bool" where
  "faithful E w w' =
     (trace w' = trace w @ events w w' \<and> answered E (sys w) (events w w')
      \<and> sys w' = stateAfter E (sys w) (events w w'))"

text \<open>Running a list of commands against the environment until the first one that
  fails. Drawing a UUID has no failure.\<close>

fun runUntilFailure ::
  "('w, 'x) env_scheme \<Rightarrow> 'w \<Rightarrow> effect list \<Rightarrow> (effect \<times> response) list" where
  "runUntilFailure E st [] = []"
| "runUntilFailure E st (e # es) =
     (e, fst (run E e st))
     # (if ok (fst (run E e st)) \<or> e = NewUUID then runUntilFailure E (snd (run E e st)) es
        else [])"

subsection \<open>What deleting a pool is expected to run\<close>

text \<open>The command that destroys the zpool, and the handling of the pool's mount point
  from a state of the environment: the test whether it exists and, when the environment
  says it does, its removal.\<close>

definition destroyPoolCmd :: "'y storageZfs_scheme \<Rightarrow> effect" where
  "destroyPoolCmd s = Exec ''zpool'' [''destroy'', ''-f'', poolName s]"

definition mountPointRemoval ::
  "('w, 'x) env_scheme \<Rightarrow> 'y storageZfs_scheme \<Rightarrow> 'w \<Rightarrow> (effect \<times> response) list" where
  "mountPointRemoval E s st =
     (let mnt = getStoragePoolMountPoint E (poolName s);
          p = fst (run E (PathExists mnt) st);
          x = fst (run E (RemoveAll mnt) (snd (run E (PathExists mnt) st)))
      in (PathExists mnt, p) # (if ok p then [(RemoveAll mnt, x)] else []))"

section \<open>Theorems\<close>

lemma StringInSlice_set: "StringInSlice key list = (key \<in> set list)"
  by (induction list) auto

text \<open>
  Claim C6. \<open>StoragePoolUpdate\<close> returns an error exactly when the list of changed keys
  contains one of size, source, volume.size, volume.block.mount\_options,
  volume.block.filesystem, volume.lvm.thinpool\_name, volume.zfs.use\_refquota,
  volume.zfs.remove\_snapshots or zfs.pool\_name, and nil otherwise;
  \<open>StoragePoolVolumeUpdate\<close> returns an error exactly when the list contains one of
  block.mount\_options, block.filesystem, size, zfs.use\_refquota or zfs.remove\_snapshots.
\<close>

theorem update_rejects_exactly_immutable_keys:
  "(StoragePoolUpdate changedConfig \<noteq> None) =
     (set changedConfig \<inter>
        {''size'', ''source'', ''volume.size'', ''volume.block.mount_options'',
         ''volume.block.filesystem'', ''volume.lvm.thinpool_name'',
         ''volume.zfs.use_refquota'', ''volume.zfs.remove_snapshots'', ''zfs.pool_name''} \<noteq> {})
   \<and> (StoragePoolVolumeUpdate changedConfig \<noteq> None) =
     (set changedConfig \<inter>
        {''block.mount_options'', ''block.filesystem'', ''size'', ''zfs.use_refquota'',
         ''zfs.remove_snapshots''} \<noteq> {})"
  by (simp add: StoragePoolUpdate_def StoragePoolVolumeUpdate_def cannotBeChanged_def
      StringInSlice_set)

subsection \<open>The environment\<close>

lemma perform_trace: "trace (snd (perform E e w)) = trace w @ [(e, fst (run E e (sys w)))]"
  by (simp add: perform_def split: prod.splits)

lemma perform_sys: "sys (snd (perform E e w)) = snd (run E e (sys w))"
  by (simp add: perform_def split: prod.splits)

lemma perform_fst: "fst (perform E e w) = fst (run E e (sys w))"
  by (simp add: perform_def split: prod.splits)

lemma events_perform: "events w (snd (perform E e w)) = [(e, fst (run E e (sys w)))]"
  by (simp add: events_def perform_trace)

lemma perform_run:
  "perform E e w =
     (fst (run E e (sys w)),
      World (trace w @ [(e, fst (run E e (sys w)))]) (snd (run E e (sys w))))"
  by (simp add: perform_def split: prod.splits)

text \<open>Every run of effects is answered by the environment.\<close>

lemma stateAfter_append: "stateAfter E st (T1 @ T2) = stateAfter E (stateAfter E st T1) T2"
  by (induction T1 arbitrary: st) auto

lemma answered_append:
  "answered E st (T1 @ T2) = (answered E st T1 \<and> answered E (stateAfter E st T1) T2)"
  by (induction T1 arbitrary: st) auto

lemma faithfulI:
  "trace w' = trace w @ T \<Longrightarrow> answered E (sys w) T \<Longrightarrow> sys w' = stateAfter E (sys w) T \<Longrightarrow>
     faithful E w w'"
  by (simp add: faithful_def events_def)

lemma faithful_refl [simp]: "faithful E w w"
  by (simp add: faithful_def events_def)

lemma faithful_trans: "faithful E w w1 \<Longrightarrow> faithful E w1 w2 \<Longrightarrow> faithful E w w2"
proof -
  assume a: "faithful E w w1" and b: "faithful E w1 w2"
  have "trace w2 = trace w @ (events w w1 @ events w1 w2)"
    using a b by (simp add: faithful_def)
  moreover have "answered E (sys w) (events w w1 @ events w1 w2)"
    using a b by (simp add: faithful_def answered_append)
  moreover have "sys w2 = stateAfter E (sys w) (events w w1 @ events w1 w2)"
    using a b by (simp add: faithful_def stateAfter_append)
  ultimately show ?thesis by (rule faithfulI)
qed

lemma faithful_step:
  "faithful E w (World (trace w @ [(e, fst (run E e (sys w)))]) (snd (run E e (sys w))))"
  by (rule faithfulI[where T="[(e, fst (run E e (sys w)))]"]) simp_all

lemma faithful_perform: "faithful E w (snd (perform E e w))"
  by (simp add: perform_run faithful_step)

lemma faithful_events_append:
  assumes "faithful E w w1" "faithful E w1 w2"
  shows "events w w2 = events w w1 @ events w1 w2"
proof -
  from assms have "trace w2 = trace w @ (events w w1 @ events w1 w2)"
    by (simp add: faithful_def)
  then show ?thesis by (simp add: events_def[of w w2])
qed

subsection \<open>Strings and numbers\<close>

lemma SplitN2_no_delim: "sep \<notin> set s \<Longrightarrow> SplitN2 s sep = [s]"
  by (simp add: SplitN2_def)












subsection \<open>Single commands of the adapter\<close>




subsection \<open>Snapshot start and stop on a name without the delimiter\<close>

text \<open>
  Claim C10. For every container whose name contains no snapshot delimiter,
  \<open>ContainerSnapshotStart\<close> and \<open>ContainerSnapshotStop\<close> each return the error
  "Invalid snapshot name: <name>" and perform no ZFS operation and no file-system change:
  the world after the call is the world before it, trace and state.
\<close>

theorem snapshot_start_stop_invalid_name:
  "SnapshotDelimiter E \<notin> set (Name c) \<Longrightarrow>
     ContainerSnapshotStart E s c w = (Some (Error (''Invalid snapshot name: '' @ Name c)), w)
   \<and> ContainerSnapshotStop E s c w = (Some (Error (''Invalid snapshot name: '' @ Name c)), w)"
  by (simp add: ContainerSnapshotStart_def ContainerSnapshotStop_def SplitN2_no_delim)

theorem snapshot_start_stop_invalid_name_witness:
  "ContainerSnapshotStart (testEnv replayOracle) testPool (testContainer ''c1'')
       (World [] [Response True ''unused''])
     = (Some (Error ''Invalid snapshot name: c1''), World [] [Response True ''unused''])
   \<and> ContainerSnapshotStop (testEnv replayOracle) testPool (testContainer ''c1'')
       (World [] [Response True ''unused''])
     = (Some (Error ''Invalid snapshot name: c1''), World [] [Response True ''unused''])"
  using snapshot_start_stop_invalid_name
    [of "testEnv replayOracle" "testContainer ''c1''" testPool "World [] [Response True ''unused'']"]
  by (simp add: testEnv_def testContainer_def)

subsection \<open>The restore pre-check on a container without snapshots\<close>

text \<open>
  Claim C9. \<open>ContainerCanRestore\<close> reads \<open>snaps[len(snaps)-1]\<close> without checking for
  emptiness: when \<open>Snapshots()\<close> returns an empty list and a nil error, the index -1 is out
  of bounds and the call ends in a runtime panic rather than returning an error.
\<close>

theorem ContainerCanRestore_panics_without_snapshots:
  "Snapshots c = ([], None) \<Longrightarrow> \<exists>msg. ContainerCanRestore E s c sourceContainer = Some (Panic msg)"
  by (simp add: ContainerCanRestore_def)

theorem ContainerCanRestore_panics_without_snapshots_witness:
  "\<exists>msg. ContainerCanRestore (testEnv replayOracle) testPool (testContainer ''c1'')
            (testContainer ''c1/snap0'') = Some (Panic msg)"
  using ContainerCanRestore_panics_without_snapshots
    [of "testContainer ''c1''" "testEnv replayOracle" testPool "testContainer ''c1/snap0''"]
  by (simp add: testContainer_def)

subsection \<open>Quota and usage\<close>




subsection \<open>Deleting the pool\<close>

lemma faithful_then_perform: "faithful E w0 w1 \<Longrightarrow> faithful E w0 (snd (perform E e w1))"
  by (rule faithful_trans[OF _ faithful_perform])

lemma zfsPoolDelete_faithful:
  assumes "faithful E w0 w"
  shows "faithful E w0 (snd (zfsPoolDelete E s w))"
proof -
  let ?src = "config (poolConfig s) ''source''"
  obtain r w1 where p1: "perform E (Exec ''zpool'' [''destroy'', ''-f'', poolName s]) w = (r, w1)"
    by (cases "perform E (Exec ''zpool'' [''destroy'', ''-f'', poolName s]) w")
  with faithful_then_perform[OF assms, of "Exec ''zpool'' [''destroy'', ''-f'', poolName s]"]
  have f1: "faithful E w0 w1" by simp
  obtain b w2 where p2: "perform E (IsBlockdevPath ?src) w1 = (b, w2)"
    by (cases "perform E (IsBlockdevPath ?src) w1")
  with faithful_then_perform[OF f1, of "IsBlockdevPath ?src"]
  have f2: "faithful E w0 w2" by simp
  obtain x w3 where p3: "perform E (RemoveAll ?src) w2 = (x, w3)"
    by (cases "perform E (RemoveAll ?src) w2")
  with faithful_then_perform[OF f2, of "RemoveAll ?src"]
  have f3: "faithful E w0 w3" by simp
  show ?thesis using p1 p2 p3 f1 f2 f3 by (simp add: zfsPoolDelete_def Let_def)
qed

lemma StoragePoolDelete_faithful: "faithful E w (snd (StoragePoolDelete E s w))"
proof -
  let ?mnt = "getStoragePoolMountPoint E (poolName s)"
  have m: "faithful E w (snd (case perform E (PathExists ?mnt) w1 of
               (p, w2) \<Rightarrow>
                 if ok p
                 then (case perform E (RemoveAll ?mnt) w2 of
                         (r, w3) \<Rightarrow> (if ok r then None else Some (Error (out r)), w3))
                 else (None, w2)))" if f: "faithful E w w1" for w1
  proof -
    obtain p w2 where p1: "perform E (PathExists ?mnt) w1 = (p, w2)"
      by (cases "perform E (PathExists ?mnt) w1")
    with faithful_then_perform[OF f, of "PathExists ?mnt"] have f1: "faithful E w w2" by simp
    obtain x w3 where p2: "perform E (RemoveAll ?mnt) w2 = (x, w3)"
      by (cases "perform E (RemoveAll ?mnt) w2")
    with faithful_then_perform[OF f1, of "RemoveAll ?mnt"] have f2: "faithful E w w3" by simp
    show ?thesis using p1 p2 f1 f2 by simp
  qed
  obtain e w1 where z: "zfsPoolDelete E s w = (e, w1)" by (cases "zfsPoolDelete E s w")
  with zfsPoolDelete_faithful[OF faithful_refl, of E w s] have fz: "faithful E w w1" by simp
  show ?thesis
  proof (cases "dataset s = [] \<or> (dataset s \<noteq> [] \<and> \<not> Contains (dataset s) ''/'')")
    case True
    show ?thesis
    proof (cases e)
      case None
      with True z m[OF fz] show ?thesis by (simp add: StoragePoolDelete_def Let_def)
    next
      case (Some err)
      with True z fz show ?thesis by (simp add: StoragePoolDelete_def Let_def)
    qed
  next
    case False
    then have "dataset s \<noteq> []" "Contains (dataset s) ''/''" by auto
    with m[OF faithful_refl] show ?thesis by (simp add: StoragePoolDelete_def Let_def)
  qed
qed

lemma StoragePoolDelete_dataset_exact:
  assumes "Contains (dataset s) ''/''"
  shows "events w (snd (StoragePoolDelete E s w)) = mountPointRemoval E s (sys w)"
    and "fst (StoragePoolDelete E s w)
           = (case last (mountPointRemoval E s (sys w)) of
                (PathExists path, p) \<Rightarrow> None
              | (e, x) \<Rightarrow> if ok x then None else Some (Error (out x)))"
proof -
  from assms have "dataset s \<noteq> []" by auto
  with assms show "events w (snd (StoragePoolDelete E s w)) = mountPointRemoval E s (sys w)"
    by (simp add: StoragePoolDelete_def mountPointRemoval_def perform_run events_def Let_def)
  from assms \<open>dataset s \<noteq> []\<close>
  show "fst (StoragePoolDelete E s w)
           = (case last (mountPointRemoval E s (sys w)) of
                (PathExists path, p) \<Rightarrow> None
              | (e, x) \<Rightarrow> if ok x then None else Some (Error (out x)))"
    by (simp add: StoragePoolDelete_def mountPointRemoval_def perform_run Let_def)
qed

lemma zfsPoolDelete_exact:
  "zfsPoolDelete E s w =
     (let src = config (poolConfig s) ''source'';
          r = fst (run E (destroyPoolCmd s) (sys w));
          st1 = snd (run E (destroyPoolCmd s) (sys w));
          b = fst (run E (IsBlockdevPath src) st1);
          st2 = snd (run E (IsBlockdevPath src) st1);
          x = fst (run E (RemoveAll src) st2);
          st3 = snd (run E (RemoveAll src) st2)
      in if \<not> ok r
         then (Some (Error (''Failed to delete the ZFS pool: '' @ out r)),
               World (trace w @ [(destroyPoolCmd s, r)]) st1)
         else if \<not> IsAbs src then (None, World (trace w @ [(destroyPoolCmd s, r)]) st1)
         else if ok b
         then (None, World (trace w @ [(destroyPoolCmd s, r), (IsBlockdevPath src, b)]) st2)
         else (None, World (trace w @ [(destroyPoolCmd s, r), (IsBlockdevPath src, b),
                                        (RemoveAll src, x)]) st3))"
  by (simp add: zfsPoolDelete_def destroyPoolCmd_def perform_run Let_def)

lemma mountPoint_part:
  "(case perform E (PathExists (getStoragePoolMountPoint E (poolName s))) (World T st) of
      (p, w2) \<Rightarrow>
         if ok p
         then (case perform E (RemoveAll (getStoragePoolMountPoint E (poolName s))) w2 of
                 (r, w3) \<Rightarrow> (if ok r then None else Some (Error (out r)), w3))
         else (None, w2))
   = ((case last (mountPointRemoval E s st) of
         (PathExists path, p) \<Rightarrow> None
       | (e, x) \<Rightarrow> if ok x then None else Some (Error (out x))),
      World (T @ mountPointRemoval E s st) (stateAfter E st (mountPointRemoval E s st)))"
  by (simp add: mountPointRemoval_def perform_run Let_def)

lemma StoragePoolDelete_pool_exact:
  assumes "\<not> Contains (dataset s) ''/''"
  shows "let src = config (poolConfig s) ''source'';
             r = fst (run E (destroyPoolCmd s) (sys w));
             st1 = snd (run E (destroyPoolCmd s) (sys w));
             b = fst (run E (IsBlockdevPath src) st1);
             st2 = snd (run E (IsBlockdevPath src) st1);
             x = fst (run E (RemoveAll src) st2);
             st3 = snd (run E (RemoveAll src) st2);
             evs = events w (snd (StoragePoolDelete E s w));
             res = fst (StoragePoolDelete E s w)
         in (\<not> ok r \<longrightarrow> evs = [(destroyPoolCmd s, r)]
               \<and> res = Some (Error (''Failed to delete the ZFS pool: '' @ out r)))
          \<and> (ok r \<and> IsAbs src \<and> \<not> ok b \<longrightarrow>
               evs = [(destroyPoolCmd s, r), (IsBlockdevPath src, b), (RemoveAll src, x)]
                     @ mountPointRemoval E s st3)
          \<and> (ok r \<and> IsAbs src \<and> ok b \<longrightarrow>
               evs = [(destroyPoolCmd s, r), (IsBlockdevPath src, b)] @ mountPointRemoval E s st2)
          \<and> (ok r \<and> \<not> IsAbs src \<longrightarrow> evs = [(destroyPoolCmd s, r)] @ mountPointRemoval E s st1)
          \<and> (ok r \<longrightarrow> res = (case last evs of
                                (PathExists path, p) \<Rightarrow> None
                              | (e, x) \<Rightarrow> if ok x then None else Some (Error (out x))))"
proof -
  from assms have c: "dataset s = [] \<or> (dataset s \<noteq> [] \<and> \<not> Contains (dataset s) ''/'')" by auto
  have ne: "mountPointRemoval E s st \<noteq> []" for st by (simp add: mountPointRemoval_def Let_def)
  let ?r = "fst (run E (destroyPoolCmd s) (sys w))"
  let ?src = "config (poolConfig s) ''source''"
  let ?b = "fst (run E (IsBlockdevPath ?src) (snd (run E (destroyPoolCmd s) (sys w))))"
  consider "\<not> ok ?r" | "ok ?r" "\<not> IsAbs ?src" | "ok ?r" "IsAbs ?src" "ok ?b"
    | "ok ?r" "IsAbs ?src" "\<not> ok ?b" by blast
  then show ?thesis
  proof cases
    case 1
    with c show ?thesis
      by (simp add: StoragePoolDelete_def zfsPoolDelete_exact events_def Let_def)
  next
    case 2
    with c show ?thesis
      by (simp add: StoragePoolDelete_def zfsPoolDelete_exact mountPoint_part events_def Let_def ne)
  next
    case 3
    with c show ?thesis
      by (simp add: StoragePoolDelete_def zfsPoolDelete_exact mountPoint_part events_def Let_def ne)
  next
    case 4
    with c show ?thesis
      by (simp add: StoragePoolDelete_def zfsPoolDelete_exact mountPoint_part events_def Let_def ne)
  qed
qed

text \<open>
  Claim C4. A pool whose source was given as a dataset path (\<open>s.dataset\<close> names a
  dataset inside somebody's pool, \<open>pool/child/...\<close>, so it contains a slash) is deleted
  without \<open>zpool destroy\<close> and without any other command: all \<open>StoragePoolDelete\<close> does is
  ask whether the pool's mount point exists and remove it when the environment says it
  does. Every other pool (no dataset, or a source without a slash, which names a whole
  zpool) is deleted with \<open>zpool destroy -f <pool name>\<close> first; when that fails nothing
  else happens and the error is returned. When it succeeds and the source is an absolute
  path, the driver asks whether it is a block device: a path that is not one (the loop
  file the pool was created from) is removed, a block device is left alone, and a source
  that is not an absolute path is not looked at; the mount point is handled after that.
  Every event is an effect the driver performed and the environment answered.
\<close>

theorem StoragePoolDelete_zpool_destroy_and_backing_file:
  "faithful E w (snd (StoragePoolDelete E s w))
   \<and> (Contains (dataset s) ''/'' \<longrightarrow>
        events w (snd (StoragePoolDelete E s w)) = mountPointRemoval E s (sys w)
      \<and> (\<forall>cmd args. Exec cmd args \<notin> fst ` set (events w (snd (StoragePoolDelete E s w))))
      \<and> fst (StoragePoolDelete E s w)
           = (case last (mountPointRemoval E s (sys w)) of
                (PathExists path, p) \<Rightarrow> None
              | (e, x) \<Rightarrow> if ok x then None else Some (Error (out x))))
   \<and> (\<not> Contains (dataset s) ''/'' \<longrightarrow>
        (let src = config (poolConfig s) ''source'';
             r = fst (run E (destroyPoolCmd s) (sys w));
             st1 = snd (run E (destroyPoolCmd s) (sys w));
             b = fst (run E (IsBlockdevPath src) st1);
             st2 = snd (run E (IsBlockdevPath src) st1);
             x = fst (run E (RemoveAll src) st2);
             st3 = snd (run E (RemoveAll src) st2);
             evs = events w (snd (StoragePoolDelete E s w));
             res = fst (StoragePoolDelete E s w)
         in (\<not> ok r \<longrightarrow> evs = [(destroyPoolCmd s, r)]
               \<and> res = Some (Error (''Failed to delete the ZFS pool: '' @ out r)))
          \<and> (ok r \<and> IsAbs src \<and> \<not> ok b \<longrightarrow>
               evs = [(destroyPoolCmd s, r), (IsBlockdevPath src, b), (RemoveAll src, x)]
                     @ mountPointRemoval E s st3)
          \<and> (ok r \<and> IsAbs src \<and> ok b \<longrightarrow>
               evs = [(destroyPoolCmd s, r), (IsBlockdevPath src, b)] @ mountPointRemoval E s st2)
          \<and> (ok r \<and> \<not> IsAbs src \<longrightarrow> evs = [(destroyPoolCmd s, r)] @ mountPointRemoval E s st1)
          \<and> (ok r \<longrightarrow> res = (case last evs of
                                (PathExists path, p) \<Rightarrow> None
                              | (e, x) \<Rightarrow> if ok x then None else Some (Error (out x))))))"
proof -
  have noexec: "Exec cmd args \<notin> fst ` set (mountPointRemoval E s st)" for cmd args st
    by (auto simp: mountPointRemoval_def Let_def)
  have 1: "Contains (dataset s) ''/'' \<longrightarrow>
        events w (snd (StoragePoolDelete E s w)) = mountPointRemoval E s (sys w)
      \<and> (\<forall>cmd args. Exec cmd args \<notin> fst ` set (events w (snd (StoragePoolDelete E s w))))
      \<and> fst (StoragePoolDelete E s w)
           = (case last (mountPointRemoval E s (sys w)) of
                (PathExists path, p) \<Rightarrow> None
              | (e, x) \<Rightarrow> if ok x then None else Some (Error (out x)))"
    using StoragePoolDelete_dataset_exact[where s=s and w=w and E=E] noexec by simp
  show ?thesis
    apply (rule conjI[OF StoragePoolDelete_faithful])
    apply (rule conjI[OF 1])
    apply (rule impI)
    apply (erule StoragePoolDelete_pool_exact)
    done
qed

theorem StoragePoolDelete_zpool_destroy_and_backing_file_witness:
  "StoragePoolDelete (testEnv (tableOracle [])) (testPool\<lparr>dataset := ''tank/lxd''\<rparr>) (World [] ())
     = (None, World [(PathExists ''/var/lib/lxd/storage-pools/p'', Response True []),
                     (RemoveAll ''/var/lib/lxd/storage-pools/p'', Response True [])] ())
   \<and> StoragePoolDelete
        (testEnv (tableOracle [(IsBlockdevPath ''/var/lib/lxd/disks/p.img'', Response False [])]))
        (testPool\<lparr>poolConfig := [''source'' \<mapsto> ''/var/lib/lxd/disks/p.img'']\<rparr>) (World [] ())
     = (None, World [(Exec ''zpool'' [''destroy'', ''-f'', ''p''], Response True []),
                     (IsBlockdevPath ''/var/lib/lxd/disks/p.img'', Response False []),
                     (RemoveAll ''/var/lib/lxd/disks/p.img'', Response True []),
                     (PathExists ''/var/lib/lxd/storage-pools/p'', Response True []),
                     (RemoveAll ''/var/lib/lxd/storage-pools/p'', Response True [])] ())
   \<and> StoragePoolDelete (testEnv (tableOracle []))
        (testPool\<lparr>poolConfig := [''source'' \<mapsto> ''/dev/sdb'']\<rparr>) (World [] ())
     = (None, World [(Exec ''zpool'' [''destroy'', ''-f'', ''p''], Response True []),
                     (IsBlockdevPath ''/dev/sdb'', Response True []),
                     (PathExists ''/var/lib/lxd/storage-pools/p'', Response True []),
                     (RemoveAll ''/var/lib/lxd/storage-pools/p'', Response True [])] ())
   \<and> StoragePoolDelete
        (testEnv (tableOracle [(Exec ''zpool'' [''destroy'', ''-f'', ''p''],
                                Response False ''pool is busy'')]))
        (testPool\<lparr>poolConfig := [''source'' \<mapsto> ''/var/lib/lxd/disks/p.img'']\<rparr>) (World [] ())
     = (Some (Error ''Failed to delete the ZFS pool: pool is busy''),
        World [(Exec ''zpool'' [''destroy'', ''-f'', ''p''], Response False ''pool is busy'')] ())"
proof -
  let ?ds = "testPool\<lparr>dataset := ''tank/lxd''\<rparr>"
  let ?lf = "testPool\<lparr>poolConfig := [''source'' \<mapsto> ''/var/lib/lxd/disks/p.img'']\<rparr>"
  let ?bd = "testPool\<lparr>poolConfig := [''source'' \<mapsto> ''/dev/sdb'']\<rparr>"
  let ?E = "testEnv (tableOracle [])"
  let ?El = "testEnv (tableOracle [(IsBlockdevPath ''/var/lib/lxd/disks/p.img'', Response False [])])"
  let ?Ef = "testEnv (tableOracle [(Exec ''zpool'' [''destroy'', ''-f'', ''p''],
                                Response False ''pool is busy'')])"
  have w: "w' = World T ()" if "faithful E (World [] ()) w'" "events (World [] ()) w' = T"
    for E :: "unit env" and w' T
    using that by (cases w') (simp add: faithful_def)
  have a: "Contains (dataset ?ds) ''/''" by (simp add: testPool_def HasPrefix_def)
  have b: "\<not> Contains (dataset ?lf) ''/''" "\<not> Contains (dataset ?bd) ''/''"
    by (simp_all add: testPool_def)
  note t1 = StoragePoolDelete_zpool_destroy_and_backing_file[of ?E "World [] ()" ?ds]
  note t2 = StoragePoolDelete_zpool_destroy_and_backing_file[of ?El "World [] ()" ?lf]
  note t3 = StoragePoolDelete_zpool_destroy_and_backing_file[of ?E "World [] ()" ?bd]
  note t4 = StoragePoolDelete_zpool_destroy_and_backing_file[of ?Ef "World [] ()" ?lf]
  from t1 a have e1: "events (World [] ()) (snd (StoragePoolDelete ?E ?ds (World [] ())))
      = [(PathExists ''/var/lib/lxd/storage-pools/p'', Response True []),
         (RemoveAll ''/var/lib/lxd/storage-pools/p'', Response True [])]"
    and r1: "fst (StoragePoolDelete ?E ?ds (World [] ())) = None"
    by (simp_all add: mountPointRemoval_def testEnv_def tableOracle_def testPool_def
        HasPrefix_def Let_def)
  from t1 have f1: "faithful ?E (World [] ()) (snd (StoragePoolDelete ?E ?ds (World [] ())))"
    by (rule conjunct1)
  from w[OF f1 e1] r1 have c1: "StoragePoolDelete ?E ?ds (World [] ())
     = (None, World [(PathExists ''/var/lib/lxd/storage-pools/p'', Response True []),
                     (RemoveAll ''/var/lib/lxd/storage-pools/p'', Response True [])] ())"
    by (simp add: prod_eq_iff)
  from t2 b(1) have e2: "events (World [] ()) (snd (StoragePoolDelete ?El ?lf (World [] ())))
      = [(Exec ''zpool'' [''destroy'', ''-f'', ''p''], Response True []),
         (IsBlockdevPath ''/var/lib/lxd/disks/p.img'', Response False []),
         (RemoveAll ''/var/lib/lxd/disks/p.img'', Response True []),
         (PathExists ''/var/lib/lxd/storage-pools/p'', Response True []),
         (RemoveAll ''/var/lib/lxd/storage-pools/p'', Response True [])]"
    and r2: "fst (StoragePoolDelete ?El ?lf (World [] ())) = None"
    by (simp_all add: mountPointRemoval_def destroyPoolCmd_def testEnv_def tableOracle_def
        testPool_def config_def IsAbs_def HasPrefix_def Let_def)
  from t2 have f2: "faithful ?El (World [] ()) (snd (StoragePoolDelete ?El ?lf (World [] ())))"
    by (rule conjunct1)
  from w[OF f2 e2] r2 have c2: "StoragePoolDelete ?El ?lf (World [] ())
     = (None, World [(Exec ''zpool'' [''destroy'', ''-f'', ''p''], Response True []),
                     (IsBlockdevPath ''/var/lib/lxd/disks/p.img'', Response False []),
                     (RemoveAll ''/var/lib/lxd/disks/p.img'', Response True []),
                     (PathExists ''/var/lib/lxd/storage-pools/p'', Response True []),
                     (RemoveAll ''/var/lib/lxd/storage-pools/p'', Response True [])] ())"
    by (simp add: prod_eq_iff)
  from t3 b(2) have e3: "events (World [] ()) (snd (StoragePoolDelete ?E ?bd (World [] ())))
      = [(Exec ''zpool'' [''destroy'', ''-f'', ''p''], Response True []),
         (IsBlockdevPath ''/dev/sdb'', Response True []),
         (PathExists ''/var/lib/lxd/storage-pools/p'', Response True []),
         (RemoveAll ''/var/lib/lxd/storage-pools/p'', Response True [])]"
    and r3: "fst (StoragePoolDelete ?E ?bd (World [] ())) = None"
    by (simp_all add: mountPointRemoval_def destroyPoolCmd_def testEnv_def tableOracle_def
        testPool_def config_def IsAbs_def HasPrefix_def Let_def)
  from t3 have f3: "faithful ?E (World [] ()) (snd (StoragePoolDelete ?E ?bd (World [] ())))"
    by (rule conjunct1)
  from w[OF f3 e3] r3 have c3: "StoragePoolDelete ?E ?bd (World [] ())
     = (None, World [(Exec ''zpool'' [''destroy'', ''-f'', ''p''], Response True []),
                     (IsBlockdevPath ''/dev/sdb'', Response True []),
                     (PathExists ''/var/lib/lxd/storage-pools/p'', Response True []),
                     (RemoveAll ''/var/lib/lxd/storage-pools/p'', Response True [])] ())"
    by (simp add: prod_eq_iff)
  from t4 b(1) have e4: "events (World [] ()) (snd (StoragePoolDelete ?Ef ?lf (World [] ())))
      = [(Exec ''zpool'' [''destroy'', ''-f'', ''p''], Response False ''pool is busy'')]"
    and r4: "fst (StoragePoolDelete ?Ef ?lf (World [] ()))
               = Some (Error ''Failed to delete the ZFS pool: pool is busy'')"
    by (simp_all add: mountPointRemoval_def destroyPoolCmd_def testEnv_def tableOracle_def
        testPool_def config_def IsAbs_def HasPrefix_def Let_def)
  from t4 have f4: "faithful ?Ef (World [] ()) (snd (StoragePoolDelete ?Ef ?lf (World [] ())))"
    by (rule conjunct1)
  from w[OF f4 e4] r4 have c4: "StoragePoolDelete ?Ef ?lf (World [] ())
     = (Some (Error ''Failed to delete the ZFS pool: pool is busy''),
        World [(Exec ''zpool'' [''destroy'', ''-f'', ''p''], Response False ''pool is busy'')] ())"
    by (simp add: prod_eq_iff)
  from c1 c2 c3 c4 show ?thesis by (simp only: simp_thms)
qed

subsection \<open>Renaming a volume\<close>

lemma zfsPoolVolumeExists_run:
  "zfsPoolVolumeExists E s path w =
     (saysExists s path (fst (run E (existsCmd s path) (sys w))),
      World (trace w @ [(existsCmd s path, fst (run E (existsCmd s path) (sys w)))])
            (snd (run E (existsCmd s path) (sys w))))"
  by (auto simp: zfsPoolVolumeExists_def zfsPoolVolumeGet_def perform_def saysExists_def existsCmd_def
      split: prod.splits)

lemma rename_loop_run:
  "20 - i = n \<Longrightarrow> i \<le> 20 \<Longrightarrow> zfsPoolVolumeRename_loop E s source dest i outp w = (res, w') \<Longrightarrow>
     \<exists>T. trace w' = trace w @ T \<and> renameRun s source dest n outp T res"
proof (induction n arbitrary: i outp w)
  case 0
  then have "i = 20" by simp
  with "0.prems"(3) renameRun.exhausted[of s source dest outp] show ?case
    by (auto simp: zfsPoolVolumeRename_loop.simps)
next
  case (Suc n)
  then have lt: "i < 20" and n: "20 - (i + 1) = n" "i + 1 \<le> 20" by auto
  note run = Suc.prems(3)
  let ?ren = "renameCmd s source dest"
  obtain r st1 where r: "run E ?ren (sys w) = (r, st1)" by (cases "run E ?ren (sys w)")
  let ?w1 = "World (trace w @ [(?ren, r)]) st1"
  have p1: "perform E (Exec ''zfs'' [''rename'', ''-p'', onDiskPoolName s @ ''/'' @ source,
               onDiskPoolName s @ ''/'' @ dest]) w = (r, ?w1)"
    using r by (simp add: perform_run renameCmd_def)
  show ?case
  proof (cases "ok r")
    case True
    with p1 lt run have "res = None" "w' = ?w1"
      by (simp_all add: zfsPoolVolumeRename_loop.simps[of E s source dest i])
    with True show ?thesis by (auto intro: renameRun.succeeded)
  next
    case notok: False
    obtain a st2 where a: "run E (existsCmd s source) st1 = (a, st2)"
      by (cases "run E (existsCmd s source) st1")
    let ?w2 = "World (trace w @ [(?ren, r), (existsCmd s source, a)]) st2"
    have e1: "zfsPoolVolumeExists E s source ?w1 = (saysExists s source a, ?w2)"
      using a by (simp add: zfsPoolVolumeExists_run)
    show ?thesis
    proof (cases "saysExists s source a")
      case True
      obtain x st3 where x: "run E (Sleep 500) st2 = (x, st3)" by (cases "run E (Sleep 500) st2")
      let ?w4 = "World (trace w @ [(?ren, r), (existsCmd s source, a), (Sleep 500, x)]) st3"
      have p4: "perform E (Sleep 500) ?w2 = (x, ?w4)" using x by (simp add: perform_run)
      have rec: "zfsPoolVolumeRename_loop E s source dest (i + 1) (out r) ?w4 = (res, w')"
        using run lt p1 notok e1 True p4
        by (simp add: zfsPoolVolumeRename_loop.simps[of E s source dest i])
      from Suc.IH[OF n rec]
      obtain T where T: "trace w' = trace ?w4 @ T" "renameRun s source dest n (out r) T res"
        by auto
      from notok True T(2) have "renameRun s source dest (Suc n) outp
          ((?ren, r) # (existsCmd s source, a) # (Sleep 500, x) # T) res"
        by (rule renameRun.retry_source_present)
      with T(1) show ?thesis by auto
    next
      case srcgone: False
      obtain b st3 where b: "run E (existsCmd s dest) st2 = (b, st3)"
        by (cases "run E (existsCmd s dest) st2")
      let ?w3 = "World (trace w @ [(?ren, r), (existsCmd s source, a), (existsCmd s dest, b)]) st3"
      have e2: "zfsPoolVolumeExists E s dest ?w2 = (saysExists s dest b, ?w3)"
        using b by (simp add: zfsPoolVolumeExists_run)
      show ?thesis
      proof (cases "saysExists s dest b")
        case True
        have "res = None" "w' = ?w3"
          using run lt p1 notok e1 srcgone e2 True
          by (simp_all add: zfsPoolVolumeRename_loop.simps[of E s source dest i])
        with notok srcgone True show ?thesis by (auto intro: renameRun.moved)
      next
        case False
        obtain x st4 where x: "run E (Sleep 500) st3 = (x, st4)" by (cases "run E (Sleep 500) st3")
        let ?w4 = "World (trace w @ [(?ren, r), (existsCmd s source, a), (existsCmd s dest, b),
                      (Sleep 500, x)]) st4"
        have p4: "perform E (Sleep 500) ?w3 = (x, ?w4)" using x by (simp add: perform_run)
        have rec: "zfsPoolVolumeRename_loop E s source dest (i + 1) (out r) ?w4 = (res, w')"
          using run lt p1 notok e1 srcgone e2 False p4
          by (simp add: zfsPoolVolumeRename_loop.simps[of E s source dest i])
        from Suc.IH[OF n rec]
        obtain T where T: "trace w' = trace ?w4 @ T" "renameRun s source dest n (out r) T res"
          by auto
        from notok srcgone False T(2) have "renameRun s source dest (Suc n) outp
            ((?ren, r) # (existsCmd s source, a) # (existsCmd s dest, b) # (Sleep 500, x) # T) res"
          by (rule renameRun.retry_both_absent)
        with T(1) show ?thesis by auto
      qed
    qed
  qed
qed


lemma cmds_distinct [simp]:
  "renameCmd s source dest \<noteq> existsCmd s path" "existsCmd s path \<noteq> renameCmd s source dest"
  "renameCmd s source dest \<noteq> Sleep k" "existsCmd s path \<noteq> Sleep k"
  "Sleep k \<noteq> renameCmd s source dest" "Sleep k \<noteq> existsCmd s path"
  by (simp_all add: renameCmd_def existsCmd_def)

lemma renameRun_success_wins:
  "renameRun s source dest n outp T res \<Longrightarrow>
     (renameCmd s source dest, r) \<in> set T \<Longrightarrow> ok r \<Longrightarrow> res = None"
  by (induction rule: renameRun.induct) auto

lemma renameRun_moved_wins:
  "renameRun s source dest n outp T res \<Longrightarrow>
     T = T1 @ (existsCmd s source, a) # (existsCmd s dest, b) # T2 \<Longrightarrow>
     \<not> saysExists s source a \<Longrightarrow> saysExists s dest b \<Longrightarrow> res = None"
proof (induction arbitrary: T1 rule: renameRun.induct)
  case (exhausted outp)
  then show ?case by simp
next
  case (succeeded r n outp)
  then show ?case by (auto simp: append_eq_Cons_conv Cons_eq_append_conv)
next
  case (moved r a b n outp)
  then show ?case by simp
next
  case (retry_source_present r a' n T res outp x)
  show ?case
  proof (cases T1)
    case Nil
    with retry_source_present.prems show ?thesis by simp
  next
    case (Cons e1 T1')
    note c1 = this
    show ?thesis
    proof (cases T1')
      case Nil
      with c1 retry_source_present.prems show ?thesis by simp
    next
      case (Cons e2 T1'')
      note c2 = this
      show ?thesis
      proof (cases T1'')
        case Nil
        with c1 c2 retry_source_present.prems show ?thesis by simp
      next
        case (Cons e3 T1''')
        with c1 c2 retry_source_present.prems
        have "T = T1''' @ (existsCmd s source, a) # (existsCmd s dest, b) # T2" by simp
        from retry_source_present.IH[OF this retry_source_present.prems(2,3)] show ?thesis .
      qed
    qed
  qed
next
  case (retry_both_absent r a' b' n T res outp x)
  show ?case
  proof (cases T1)
    case Nil
    with retry_both_absent.prems show ?thesis by simp
  next
    case (Cons e1 T1')
    note c1 = this
    show ?thesis
    proof (cases T1')
      case Nil
      with c1 retry_both_absent.prems retry_both_absent.hyps show ?thesis by simp
    next
      case (Cons e2 T1'')
      note c2 = this
      show ?thesis
      proof (cases T1'')
        case Nil
        with c1 c2 retry_both_absent.prems show ?thesis by simp
      next
        case (Cons e3 T1''')
        note c3 = this
        show ?thesis
        proof (cases T1''')
          case Nil
          with c1 c2 c3 retry_both_absent.prems show ?thesis by simp
        next
          case (Cons e4 T4)
          with c1 c2 c3 retry_both_absent.prems
          have "T = T4 @ (existsCmd s source, a) # (existsCmd s dest, b) # T2" by simp
          from retry_both_absent.IH[OF this retry_both_absent.prems(2,3)] show ?thesis .
        qed
      qed
    qed
  qed
qed

lemma renameRun_success_reason:
  "renameRun s source dest n outp T res \<Longrightarrow> res = None \<Longrightarrow>
     (\<exists>T1 r. T = T1 @ [(renameCmd s source dest, r)] \<and> ok r)
   \<or> (\<exists>T1 r a b. T = T1 @ [(renameCmd s source dest, r), (existsCmd s source, a),
                               (existsCmd s dest, b)]
          \<and> \<not> ok r \<and> \<not> saysExists s source a \<and> saysExists s dest b)"
proof (induction rule: renameRun.induct)
  case (exhausted outp)
  then show ?case by simp
next
  case (succeeded r n outp)
  then show ?case by auto
next
  case (moved r a b n outp)
  then show ?case by auto
next
  case (retry_source_present r a n T res outp x)
  from retry_source_present.IH[OF retry_source_present.prems]
  show ?case
  proof
    assume "\<exists>T1 r. T = T1 @ [(renameCmd s source dest, r)] \<and> ok r"
    then obtain T1 r' where "T = T1 @ [(renameCmd s source dest, r')]" "ok r'" by auto
    then have "(renameCmd s source dest, r) # (existsCmd s source, a) # (Sleep 500, x) # T
        = ((renameCmd s source dest, r) # (existsCmd s source, a) # (Sleep 500, x) # T1)
          @ [(renameCmd s source dest, r')] \<and> ok r'" by simp
    then show ?thesis by blast
  next
    assume "\<exists>T1 r a b. T = T1 @ [(renameCmd s source dest, r), (existsCmd s source, a),
                               (existsCmd s dest, b)]
          \<and> \<not> ok r \<and> \<not> saysExists s source a \<and> saysExists s dest b"
    then obtain T1 r' a' b' where
      "T = T1 @ [(renameCmd s source dest, r'), (existsCmd s source, a'), (existsCmd s dest, b')]"
      "\<not> ok r'" "\<not> saysExists s source a'" "saysExists s dest b'" by auto
    then have "(renameCmd s source dest, r) # (existsCmd s source, a) # (Sleep 500, x) # T
        = ((renameCmd s source dest, r) # (existsCmd s source, a) # (Sleep 500, x) # T1)
          @ [(renameCmd s source dest, r'), (existsCmd s source, a'), (existsCmd s dest, b')]
        \<and> \<not> ok r' \<and> \<not> saysExists s source a' \<and> saysExists s dest b'" by simp
    then show ?thesis by blast
  qed
next
  case (retry_both_absent r a b n T res outp x)
  from retry_both_absent.IH[OF retry_both_absent.prems]
  show ?case
  proof
    assume "\<exists>T1 r. T = T1 @ [(renameCmd s source dest, r)] \<and> ok r"
    then obtain T1 r' where "T = T1 @ [(renameCmd s source dest, r')]" "ok r'" by auto
    then have "(renameCmd s source dest, r) # (existsCmd s source, a) # (existsCmd s dest, b)
          # (Sleep 500, x) # T
        = ((renameCmd s source dest, r) # (existsCmd s source, a) # (existsCmd s dest, b)
          # (Sleep 500, x) # T1)
          @ [(renameCmd s source dest, r')] \<and> ok r'" by simp
    then show ?thesis by blast
  next
    assume "\<exists>T1 r a b. T = T1 @ [(renameCmd s source dest, r), (existsCmd s source, a),
                               (existsCmd s dest, b)]
          \<and> \<not> ok r \<and> \<not> saysExists s source a \<and> saysExists s dest b"
    then obtain T1 r' a' b' where
      "T = T1 @ [(renameCmd s source dest, r'), (existsCmd s source, a'), (existsCmd s dest, b')]"
      "\<not> ok r'" "\<not> saysExists s source a'" "saysExists s dest b'" by auto
    then have "(renameCmd s source dest, r) # (existsCmd s source, a) # (existsCmd s dest, b)
          # (Sleep 500, x) # T
        = ((renameCmd s source dest, r) # (existsCmd s source, a) # (existsCmd s dest, b)
          # (Sleep 500, x) # T1)
          @ [(renameCmd s source dest, r'), (existsCmd s source, a'), (existsCmd s dest, b')]
        \<and> \<not> ok r' \<and> \<not> saysExists s source a' \<and> saysExists s dest b'" by simp
    then show ?thesis by blast
  qed
qed

text \<open>The output the error message carries: that of the latest attempt.\<close>

lemma renameRun_failure:
  "renameRun s source dest n outp T res \<Longrightarrow> res \<noteq> None \<Longrightarrow>
     length (filter (\<lambda>ev. fst ev = renameCmd s source dest) T) = n
   \<and> length (filter (\<lambda>ev. fst ev = Sleep 500) T) = n
   \<and> res = Some (Error (''Failed to rename ZFS filesystem: '' @
         (case filter (\<lambda>ev. fst ev = renameCmd s source dest) T of
            [] \<Rightarrow> outp | evs \<Rightarrow> out (snd (last evs)))))"
proof (induction rule: renameRun.induct)
  case (retry_source_present r a n T res outp x)
  then show ?case
    by (cases "filter (\<lambda>ev. fst ev = renameCmd s source dest) T") auto
next
  case (retry_both_absent r a b n T res outp x)
  then show ?case
    by (cases "filter (\<lambda>ev. fst ev = renameCmd s source dest) T") auto
qed auto

lemma renameRun_bounds:
  "renameRun s source dest n outp T res \<Longrightarrow>
     length (filter (\<lambda>ev. fst ev = renameCmd s source dest) T) \<le> n
   \<and> fst ` set T \<subseteq> {renameCmd s source dest, existsCmd s source, existsCmd s dest, Sleep 500}"
  by (induction rule: renameRun.induct) auto


lemma rename_demo_success:
  "zfsPoolVolumeRename (testEnv replayOracle) testPool ''containers/a'' ''containers/b''
      (World [] [Response False ''busy'', Response True (''p/containers/a'' @ [newline]),
                 Response True [], Response True []])
   = (None, World [(renameCmd testPool ''containers/a'' ''containers/b'', Response False ''busy''),
                   (existsCmd testPool ''containers/a'', Response True (''p/containers/a'' @ [newline])),
                   (Sleep 500, Response True []),
                   (renameCmd testPool ''containers/a'' ''containers/b'', Response True [])] [])"
  by (simp add: zfsPoolVolumeRename_def zfsPoolVolumeRename_loop.simps perform_run
      zfsPoolVolumeExists_run saysExists_def existsCmd_def renameCmd_def testEnv_def
      replayOracle_def testPool_def onDiskPoolName_def TrimRight_def newline_def)

lemma rename_demo_timeout:
  "fst (zfsPoolVolumeRename (testEnv replayOracle) testPool ''containers/a'' ''containers/b''
      (World [] [])) = Some (Error ''Failed to rename ZFS filesystem: '')"
  by (simp add: zfsPoolVolumeRename_def zfsPoolVolumeRename_loop.simps perform_run
      zfsPoolVolumeExists_run saysExists_def existsCmd_def renameCmd_def testEnv_def
      replayOracle_def testPool_def onDiskPoolName_def TrimRight_def newline_def)


lemma zfsPoolVolumeExists_faithful: "faithful E w (snd (zfsPoolVolumeExists E s path w))"
  by (simp add: zfsPoolVolumeExists_run faithful_step)

lemma rename_loop_faithful:
  "20 - i = n \<Longrightarrow> zfsPoolVolumeRename_loop E s source dest i outp w = (res, w') \<Longrightarrow>
     faithful E w w'"
proof (induction n arbitrary: i outp w)
  case 0
  then show ?case by (simp add: zfsPoolVolumeRename_loop.simps)
next
  case (Suc n)
  then have lt: "i < 20" and n: "20 - (i + 1) = n" by auto
  note run = Suc.prems(2)
  let ?ren = "Exec ''zfs'' [''rename'', ''-p'', onDiskPoolName s @ ''/'' @ source,
               onDiskPoolName s @ ''/'' @ dest]"
  obtain r w1 where p1: "perform E ?ren w = (r, w1)" by (metis prod.exhaust)
  have f1: "faithful E w w1" using faithful_perform[of E w ?ren] p1 by simp
  show ?case
  proof (cases "ok r")
    case True
    with p1 lt run have "w' = w1"
      by (simp add: zfsPoolVolumeRename_loop.simps[of E s source dest i])
    with f1 show ?thesis by simp
  next
    case notok: False
    obtain se w2 where e1: "zfsPoolVolumeExists E s source w1 = (se, w2)" by (metis prod.exhaust)
    have f2: "faithful E w1 w2" using zfsPoolVolumeExists_faithful[of E w1 s source] e1 by simp
    obtain rn w3 where e2:
      "(if \<not> se then zfsPoolVolumeExists E s dest w2 else (False, w2)) = (rn, w3)"
      by (metis prod.exhaust)
    have f3: "faithful E w2 w3"
      using zfsPoolVolumeExists_faithful[of E w2 s dest] e2 by (cases se) auto
    show ?thesis
    proof (cases rn)
      case True
      with p1 lt run notok e1 e2 have "w' = w3"
        by (simp add: zfsPoolVolumeRename_loop.simps[of E s source dest i])
      with f1 f2 f3 show ?thesis by (auto intro: faithful_trans)
    next
      case False
      obtain x w4 where p4: "perform E (Sleep 500) w3 = (x, w4)" by (metis prod.exhaust)
      have f4: "faithful E w3 w4" using faithful_perform[of E w3 "Sleep 500"] p4 by simp
      from p1 lt run notok e1 e2 False p4
      have "zfsPoolVolumeRename_loop E s source dest (i + 1) (out r) w4 = (res, w')"
        by (simp add: zfsPoolVolumeRename_loop.simps[of E s source dest i])
      from Suc.IH[OF n this] f1 f2 f3 f4 show ?thesis by (blast intro: faithful_trans)
    qed
  qed
qed


lemma rename_first_attempt:
  assumes run: "zfsPoolVolumeRename E s source dest w = (res, w')"
  shows "(ok (fst (run E (renameCmd s source dest) (sys w))) \<longrightarrow>
            res = None
          \<and> events w w' = [(renameCmd s source dest, fst (run E (renameCmd s source dest) (sys w)))])"
    and "(let r = fst (run E (renameCmd s source dest) (sys w));
              st1 = snd (run E (renameCmd s source dest) (sys w));
              a = fst (run E (existsCmd s source) st1);
              st2 = snd (run E (existsCmd s source) st1);
              b = fst (run E (existsCmd s dest) st2)
          in \<not> ok r \<and> \<not> saysExists s source a \<and> saysExists s dest b \<longrightarrow>
               res = None
             \<and> events w w' = [(renameCmd s source dest, r), (existsCmd s source, a),
                               (existsCmd s dest, b)])"
proof -
  let ?ren = "renameCmd s source dest"
  let ?r = "fst (run E ?ren (sys w))"
  let ?st1 = "snd (run E ?ren (sys w))"
  let ?a = "fst (run E (existsCmd s source) ?st1)"
  let ?st2 = "snd (run E (existsCmd s source) ?st1)"
  let ?b = "fst (run E (existsCmd s dest) ?st2)"
  from run have loop: "zfsPoolVolumeRename_loop E s source dest 0 [] w = (res, w')"
    by (simp add: zfsPoolVolumeRename_def)
  show "ok ?r \<longrightarrow> res = None \<and> events w w' = [(?ren, ?r)]"
  proof
    assume "ok ?r"
    then have "zfsPoolVolumeRename_loop E s source dest 0 [] w
        = (None, World (trace w @ [(?ren, ?r)]) ?st1)"
      by (simp add: zfsPoolVolumeRename_loop.simps[of E s source dest 0] perform_run renameCmd_def)
    with loop show "res = None \<and> events w w' = [(?ren, ?r)]" by (auto simp: events_def)
  qed
  have "\<not> ok ?r \<and> \<not> saysExists s source ?a \<and> saysExists s dest ?b \<longrightarrow>
      res = None \<and> events w w' = [(?ren, ?r), (existsCmd s source, ?a), (existsCmd s dest, ?b)]"
  proof
    assume "\<not> ok ?r \<and> \<not> saysExists s source ?a \<and> saysExists s dest ?b"
    then have "zfsPoolVolumeRename_loop E s source dest 0 [] w
        = (None, World (trace w @ [(?ren, ?r), (existsCmd s source, ?a), (existsCmd s dest, ?b)])
                   (snd (run E (existsCmd s dest) ?st2)))"
      by (simp add: zfsPoolVolumeRename_loop.simps[of E s source dest 0] perform_run
          zfsPoolVolumeExists_run) (simp add: renameCmd_def)
    with loop show "res = None
        \<and> events w w' = [(?ren, ?r), (existsCmd s source, ?a), (existsCmd s dest, ?b)]"
      by (auto simp: events_def)
  qed
  then show "(let r = fst (run E (renameCmd s source dest) (sys w));
              st1 = snd (run E (renameCmd s source dest) (sys w));
              a = fst (run E (existsCmd s source) st1);
              st2 = snd (run E (existsCmd s source) st1);
              b = fst (run E (existsCmd s dest) st2)
          in \<not> ok r \<and> \<not> saysExists s source a \<and> saysExists s dest b \<longrightarrow>
               res = None
             \<and> events w w' = [(renameCmd s source dest, r), (existsCmd s source, a),
                               (existsCmd s dest, b)])"
    by (simp add: Let_def)
qed

lemma rename_demo_moved:
  "zfsPoolVolumeRename (testEnv replayOracle) testPool ''containers/a'' ''containers/b''
      (World [] [Response False ''busy'', Response False ''no such dataset'',
                 Response True (''p/containers/b'' @ [newline])])
   = (None, World [(renameCmd testPool ''containers/a'' ''containers/b'', Response False ''busy''),
                   (existsCmd testPool ''containers/a'', Response False ''no such dataset''),
                   (existsCmd testPool ''containers/b'',
                    Response True (''p/containers/b'' @ [newline]))] [])"
  by (simp add: zfsPoolVolumeRename_def zfsPoolVolumeRename_loop.simps perform_run
      zfsPoolVolumeExists_run saysExists_def existsCmd_def renameCmd_def testEnv_def
      replayOracle_def testPool_def onDiskPoolName_def TrimRight_def newline_def)

lemma rename_trace_properties:
  assumes run: "zfsPoolVolumeRename E s source dest w = (res, w')"
  shows
    "((\<exists>r. (renameCmd s source dest, r) \<in> set (events w w') \<and> ok r) \<longrightarrow> res = None)
   \<and> ((\<exists>T1 a b T2. events w w' = T1 @ (existsCmd s source, a) # (existsCmd s dest, b) # T2
           \<and> \<not> saysExists s source a \<and> saysExists s dest b) \<longrightarrow> res = None)
   \<and> (res = None \<longrightarrow>
         (\<exists>T1 r. events w w' = T1 @ [(renameCmd s source dest, r)] \<and> ok r)
       \<or> (\<exists>T1 r a b. events w w' = T1 @ [(renameCmd s source dest, r), (existsCmd s source, a),
                                         (existsCmd s dest, b)]
             \<and> \<not> ok r \<and> \<not> saysExists s source a \<and> saysExists s dest b))
   \<and> (res \<noteq> None \<longrightarrow>
         length (filter (\<lambda>ev. fst ev = renameCmd s source dest) (events w w')) = 20
       \<and> length (filter (\<lambda>ev. fst ev = Sleep 500) (events w w')) = 20
       \<and> res = Some (Error (''Failed to rename ZFS filesystem: '' @
            out (snd (last (filter (\<lambda>ev. fst ev = renameCmd s source dest) (events w w')))))))
   \<and> length (filter (\<lambda>ev. fst ev = renameCmd s source dest) (events w w')) \<le> 20
   \<and> fst ` set (events w w')
        \<subseteq> {renameCmd s source dest, existsCmd s source, existsCmd s dest, Sleep 500}"
proof -
  from run have "zfsPoolVolumeRename_loop E s source dest 0 [] w = (res, w')"
    by (simp add: zfsPoolVolumeRename_def)
  from rename_loop_run[OF _ _ this, of 20]
  obtain T where T: "trace w' = trace w @ T" "renameRun s source dest 20 [] T res" by auto
  from T(1) have ev: "events w w' = T" by (simp add: events_def)
  have 1: "(\<exists>r. (renameCmd s source dest, r) \<in> set T \<and> ok r) \<longrightarrow> res = None"
    using renameRun_success_wins[OF T(2)] by blast
  have 2: "(\<exists>T1 a b T2. T = T1 @ (existsCmd s source, a) # (existsCmd s dest, b) # T2
           \<and> \<not> saysExists s source a \<and> saysExists s dest b) \<longrightarrow> res = None"
    using renameRun_moved_wins[OF T(2)] by blast
  have 3: "res = None \<longrightarrow>
         (\<exists>T1 r. T = T1 @ [(renameCmd s source dest, r)] \<and> ok r)
       \<or> (\<exists>T1 r a b. T = T1 @ [(renameCmd s source dest, r), (existsCmd s source, a),
                                         (existsCmd s dest, b)]
             \<and> \<not> ok r \<and> \<not> saysExists s source a \<and> saysExists s dest b)"
    using renameRun_success_reason[OF T(2)] by blast
  have 4: "res \<noteq> None \<longrightarrow>
         length (filter (\<lambda>ev. fst ev = renameCmd s source dest) T) = 20
       \<and> length (filter (\<lambda>ev. fst ev = Sleep 500) T) = 20
       \<and> res = Some (Error (''Failed to rename ZFS filesystem: '' @
            out (snd (last (filter (\<lambda>ev. fst ev = renameCmd s source dest) T)))))"
  proof
    assume ne: "res \<noteq> None"
    note f = renameRun_failure[OF T(2) ne]
    from f have len: "length (filter (\<lambda>ev. fst ev = renameCmd s source dest) T) = 20" by blast
    then obtain e es where "filter (\<lambda>ev. fst ev = renameCmd s source dest) T = e # es"
      by (cases "filter (\<lambda>ev. fst ev = renameCmd s source dest) T") auto
    with f show "length (filter (\<lambda>ev. fst ev = renameCmd s source dest) T) = 20
       \<and> length (filter (\<lambda>ev. fst ev = Sleep 500) T) = 20
       \<and> res = Some (Error (''Failed to rename ZFS filesystem: '' @
            out (snd (last (filter (\<lambda>ev. fst ev = renameCmd s source dest) T)))))"
      by simp
  qed
  note 5 = renameRun_bounds[OF T(2)]
  from 1 2 3 4 5 show ?thesis unfolding ev by blast
qed

text \<open>
  Claim C8. For every source and destination, the volume rename returns success if some
  \<open>zfs rename\<close> invocation succeeds, or if after a failed invocation the source dataset no
  longer exists while the destination exists, and it returns success for no other reason;
  otherwise it sleeps 500 ms after every attempt and, after 20 attempts (20 sleeps, 10
  seconds), returns the error "Failed to rename ZFS filesystem: " followed by the output of
  the last attempt. In full: every event of the run is an effect the driver performed and
  the environment answered, and the events and the result form one of the runs of
  \<open>renameRun\<close> with 20 attempts; in particular, when the first rename succeeds the run is
  that one command, and when it fails and the environment then says that the source is
  gone and the destination is there, the run is the rename and the two existence checks,
  and both return nil. It never runs more than 20 renames and runs nothing but the rename,
  the two existence checks and the sleep.
\<close>

theorem zfsPoolVolumeRename_retries:
  assumes run: "zfsPoolVolumeRename E s source dest w = (res, w')"
  shows
    "faithful E w w'
   \<and> renameRun s source dest 20 [] (events w w') res
   \<and> (ok (fst (run E (renameCmd s source dest) (sys w))) \<longrightarrow>
         res = None
       \<and> events w w' = [(renameCmd s source dest, fst (run E (renameCmd s source dest) (sys w)))])
   \<and> (let r = fst (run E (renameCmd s source dest) (sys w));
           st1 = snd (run E (renameCmd s source dest) (sys w));
           a = fst (run E (existsCmd s source) st1);
           st2 = snd (run E (existsCmd s source) st1);
           b = fst (run E (existsCmd s dest) st2)
       in \<not> ok r \<and> \<not> saysExists s source a \<and> saysExists s dest b \<longrightarrow>
            res = None
          \<and> events w w' = [(renameCmd s source dest, r), (existsCmd s source, a),
                            (existsCmd s dest, b)])
   \<and> ((\<exists>r. (renameCmd s source dest, r) \<in> set (events w w') \<and> ok r) \<longrightarrow> res = None)
   \<and> ((\<exists>T1 a b T2. events w w' = T1 @ (existsCmd s source, a) # (existsCmd s dest, b) # T2
           \<and> \<not> saysExists s source a \<and> saysExists s dest b) \<longrightarrow> res = None)
   \<and> (res = None \<longrightarrow>
         (\<exists>T1 r. events w w' = T1 @ [(renameCmd s source dest, r)] \<and> ok r)
       \<or> (\<exists>T1 r a b. events w w' = T1 @ [(renameCmd s source dest, r), (existsCmd s source, a),
                                         (existsCmd s dest, b)]
             \<and> \<not> ok r \<and> \<not> saysExists s source a \<and> saysExists s dest b))
   \<and> (res \<noteq> None \<longrightarrow>
         length (filter (\<lambda>ev. fst ev = renameCmd s source dest) (events w w')) = 20
       \<and> length (filter (\<lambda>ev. fst ev = Sleep 500) (events w w')) = 20
       \<and> res = Some (Error (''Failed to rename ZFS filesystem: '' @
            out (snd (last (filter (\<lambda>ev. fst ev = renameCmd s source dest) (events w w')))))))
   \<and> length (filter (\<lambda>ev. fst ev = renameCmd s source dest) (events w w')) \<le> 20
   \<and> fst ` set (events w w')
        \<subseteq> {renameCmd s source dest, existsCmd s source, existsCmd s dest, Sleep 500}"
proof -
  from run have loop: "zfsPoolVolumeRename_loop E s source dest 0 [] w = (res, w')"
    by (simp add: zfsPoolVolumeRename_def)
  have f: "faithful E w w'" using rename_loop_faithful[OF _ loop] by simp
  from rename_loop_run[OF _ _ loop, of 20]
  obtain T where T: "trace w' = trace w @ T" "renameRun s source dest 20 [] T res" by auto
  from T(1) have "events w w' = T" by (simp add: events_def)
  with T(2) have rr: "renameRun s source dest 20 [] (events w w') res" by simp
  note fa = rename_first_attempt[OF run]
  note tp = rename_trace_properties[OF run]
  show ?thesis
    apply (rule conjI[OF f])
    apply (rule conjI[OF rr])
    apply (rule conjI[OF fa(1)])
    apply (rule conjI[OF fa(2)])
    apply (rule tp)
    done
qed

theorem zfsPoolVolumeRename_retries_witness:
  "zfsPoolVolumeRename (testEnv replayOracle) testPool ''containers/a'' ''containers/b''
      (World [] [Response False ''busy'', Response False ''no such dataset'',
                 Response True (''p/containers/b'' @ [newline])])
     = (None, World [(renameCmd testPool ''containers/a'' ''containers/b'', Response False ''busy''),
                     (existsCmd testPool ''containers/a'', Response False ''no such dataset''),
                     (existsCmd testPool ''containers/b'',
                      Response True (''p/containers/b'' @ [newline]))] [])
   \<and> fst (zfsPoolVolumeRename (testEnv replayOracle) testPool ''containers/a'' ''containers/b''
      (World [] [Response False ''busy'', Response True (''p/containers/a'' @ [newline]),
                 Response True [], Response True []])) = None
   \<and> fst (zfsPoolVolumeRename (testEnv replayOracle) testPool ''containers/a'' ''containers/b''
      (World [] [])) = Some (Error ''Failed to rename ZFS filesystem: '')
   \<and> length (filter (\<lambda>ev. fst ev = Sleep 500)
        (events (World [] [])
          (snd (zfsPoolVolumeRename (testEnv replayOracle) testPool ''containers/a''
                 ''containers/b'' (World [] []))))) = 20"
proof -
  let ?E = "testEnv replayOracle"
  let ?M = "World [] [Response False ''busy'', Response False ''no such dataset'',
                 Response True (''p/containers/b'' @ [newline])]"
  obtain res0 w0 where r0:
    "zfsPoolVolumeRename ?E testPool ''containers/a'' ''containers/b'' ?M = (res0, w0)"
    by (cases "zfsPoolVolumeRename ?E testPool ''containers/a'' ''containers/b'' ?M")
  have m: "\<not> ok (fst (run ?E (renameCmd testPool ''containers/a'' ''containers/b'') (sys ?M)))"
    "\<not> saysExists testPool ''containers/a''
         (fst (run ?E (existsCmd testPool ''containers/a'')
                (snd (run ?E (renameCmd testPool ''containers/a'' ''containers/b'') (sys ?M)))))"
    "saysExists testPool ''containers/b''
         (fst (run ?E (existsCmd testPool ''containers/b'')
            (snd (run ?E (existsCmd testPool ''containers/a'')
                (snd (run ?E (renameCmd testPool ''containers/a'' ''containers/b'') (sys ?M)))))))"
    by (simp_all add: testEnv_def replayOracle_def saysExists_def testPool_def onDiskPoolName_def
        TrimRight_def newline_def)
  from zfsPoolVolumeRename_retries[OF r0] m have "res0 = None" by (simp add: Let_def)
  with r0 rename_demo_moved
  have moved: "zfsPoolVolumeRename ?E testPool ''containers/a'' ''containers/b'' ?M
     = (None, World [(renameCmd testPool ''containers/a'' ''containers/b'', Response False ''busy''),
                     (existsCmd testPool ''containers/a'', Response False ''no such dataset''),
                     (existsCmd testPool ''containers/b'',
                      Response True (''p/containers/b'' @ [newline]))] [])"
    by simp
  let ?W = "World [] [Response False ''busy'', Response True (''p/containers/a'' @ [newline]),
                 Response True [], Response True []]"
  obtain res w' where r1:
    "zfsPoolVolumeRename ?E testPool ''containers/a'' ''containers/b'' ?W = (res, w')"
    by (cases "zfsPoolVolumeRename ?E testPool ''containers/a'' ''containers/b'' ?W")
  from r1 rename_demo_success
  have "(renameCmd testPool ''containers/a'' ''containers/b'', Response True [])
          \<in> set (events ?W w')"
    by (simp add: events_def)
  then have "\<exists>r. (renameCmd testPool ''containers/a'' ''containers/b'', r) \<in> set (events ?W w')
          \<and> ok r"
    by (intro exI[of _ "Response True []"]) simp
  with zfsPoolVolumeRename_retries[OF r1] have "res = None" by blast
  with r1 have a: "fst (zfsPoolVolumeRename ?E testPool ''containers/a''
      ''containers/b'' ?W) = None" by simp
  obtain res2 w2 where r2:
    "zfsPoolVolumeRename ?E testPool ''containers/a'' ''containers/b''
       (World [] []) = (res2, w2)"
    by (cases "zfsPoolVolumeRename ?E testPool ''containers/a''
                 ''containers/b'' (World [] [])")
  with rename_demo_timeout have b: "res2 = Some (Error ''Failed to rename ZFS filesystem: '')"
    by simp
  then have "res2 \<noteq> None" by simp
  with zfsPoolVolumeRename_retries[OF r2]
  have "length (filter (\<lambda>ev. fst ev = Sleep 500) (events (World [] []) w2)) = 20" by blast
  with r2 b a moved show ?thesis by simp
qed

subsection \<open>The migration source\<close>

lemma send_run:
  "send E d zfsName zfsParent w =
     (let e = sendCmd (onDiskPoolName (zfs d))
                (SplitN2 (Name (container d)) (SnapshotDelimiter E) ! 0) zfsName
                (if zfsParent \<noteq> []
                 then Some (onDiskPoolName (zfs d) @ ''/containers/'' @ Name (container d) @ ''@''
                            @ zfsParent)
                 else None);
          r = fst (run E e (sys w))
      in ((if ok r then None else Some (Error (out r))),
          World (trace w @ [(e, r)]) (snd (run E e (sys w)))))"
  by (simp add: send_def sendCmd_def perform_run Let_def)

text \<open>What \<open>runUntilFailure\<close> means: its commands are a beginning of the list, every
  answer is the environment's, every command before the last one succeeded, and it ends
  before the end of the list only at a command that failed.\<close>

lemma runUntilFailure_empty [simp]: "(runUntilFailure E st cmds = []) = (cmds = [])"
  by (cases cmds) simp_all

lemma runUntilFailure_prefix:
  "map fst (runUntilFailure E st cmds) = take (length (runUntilFailure E st cmds)) cmds"
  by (induction cmds arbitrary: st) simp_all

lemma runUntilFailure_answered: "answered E st (runUntilFailure E st cmds)"
  by (induction cmds arbitrary: st) simp_all

lemma runUntilFailure_stops_at_failure:
  "length (runUntilFailure E st cmds) < length cmds \<Longrightarrow>
   \<not> ok (snd (last (runUntilFailure E st cmds)))"
  by (induction cmds arbitrary: st) (auto split: if_splits)

lemma runUntilFailure_butlast:
  "ev \<in> set (butlast (runUntilFailure E st cmds)) \<Longrightarrow> ok (snd ev) \<or> fst ev = NewUUID"
  by (induction cmds arbitrary: st) (auto split: if_splits)

lemma runUntilFailure_stop:
  "runUntilFailure E st xs \<noteq> [] \<Longrightarrow> \<not> ok (snd (last (runUntilFailure E st xs))) \<Longrightarrow>
   fst (last (runUntilFailure E st xs)) \<noteq> NewUUID \<Longrightarrow>
   runUntilFailure E st (xs @ ys) = runUntilFailure E st xs"
  by (induction xs arbitrary: st) (auto split: if_splits)

lemma runUntilFailure_continue:
  "xs = [] \<or> ok (snd (last (runUntilFailure E st xs)))
     \<or> fst (last (runUntilFailure E st xs)) = NewUUID \<Longrightarrow>
   runUntilFailure E st (xs @ ys)
     = runUntilFailure E st xs
       @ runUntilFailure E (stateAfter E st (runUntilFailure E st xs)) ys"
  by (induction xs arbitrary: st) (auto split: if_splits)

lemma runUntilFailure_fst: "fst ` set (runUntilFailure E st cmds) \<subseteq> set cmds"
  by (induction cmds arbitrary: st) (auto split: if_splits)

lemma sendOf_not_uuid [simp]: "sendOf E d i \<noteq> NewUUID"
  by (simp add: sendOf_def sendCmd_def)

text \<open>The loop of \<open>SendWhileRunning\<close> runs its sends until the first that fails.\<close>

lemma SendWhileRunning_loop_exact:
  "length (zfsSnapshotNames d) - i = n \<Longrightarrow> [] \<notin> set (zfsSnapshotNames d) \<Longrightarrow>
   (let T = runUntilFailure E (sys w) (map (sendOf E d) [i..<length (zfsSnapshotNames d)])
    in fst (fst (SendWhileRunning_loop E d i lastS w))
         = (if T = [] \<or> ok (snd (last T)) then None else Some (Error (out (snd (last T)))))
     \<and> snd (SendWhileRunning_loop E d i lastS w) = World (trace w @ T) (stateAfter E (sys w) T)
     \<and> (T = [] \<or> ok (snd (last T)) \<longrightarrow>
          snd (fst (SendWhileRunning_loop E d i lastS w))
            = (if i < length (zfsSnapshotNames d) then last (zfsSnapshotNames d) else lastS)))"
proof (induction n arbitrary: i lastS w)
  case 0
  then have "\<not> i < length (zfsSnapshotNames d)" by simp
  then show ?case by (simp add: SendWhileRunning_loop.simps)
next
  case (Suc n)
  let ?names = "zfsSnapshotNames d"
  from Suc.prems(1) have lt: "i < length ?names" and n: "length ?names - (i + 1) = n" by auto
  let ?prev = "if i > 0 then ?names ! (i - 1) else []"
  have prev_ne: "i > 0 \<Longrightarrow> ?names ! (i - 1) \<noteq> []"
    using Suc.prems(2) lt by (metis less_imp_diff_less nth_mem)
  let ?e = "sendOf E d i"
  have e: "sendCmd (onDiskPoolName (zfs d))
                (SplitN2 (Name (container d)) (SnapshotDelimiter E) ! 0) (?names ! i)
                (if ?prev \<noteq> []
                 then Some (onDiskPoolName (zfs d) @ ''/containers/'' @ Name (container d) @ ''@''
                            @ ?prev)
                 else None) = ?e"
    using prev_ne by (auto simp: sendOf_def)
  let ?r = "fst (run E ?e (sys w))"
  let ?w1 = "World (trace w @ [(?e, ?r)]) (snd (run E ?e (sys w)))"
  have s: "send E d (?names ! i) ?prev w = ((if ok ?r then None else Some (Error (out ?r))), ?w1)"
    unfolding send_run Let_def e ..
  have up: "[i..<length ?names] = i # [i + 1..<length ?names]" using lt by (simp add: upt_rec)
  let ?T' = "runUntilFailure E (sys ?w1) (map (sendOf E d) [i + 1..<length ?names])"
  show ?case
  proof (cases "ok ?r")
    case False
    with lt s have "SendWhileRunning_loop E d i lastS w = ((Some (Error (out ?r)), ?names ! i), ?w1)"
      by (simp add: SendWhileRunning_loop.simps[of E d i] Let_def)
    with False show ?thesis unfolding up by (simp add: Let_def)
  next
    case True
    with lt s
    have rec: "SendWhileRunning_loop E d i lastS w
                 = SendWhileRunning_loop E d (i + 1) (?names ! i) ?w1"
      by (simp add: SendWhileRunning_loop.simps[of E d i] Let_def)
    note IH = Suc.IH[OF n Suc.prems(2), of ?w1 "?names ! i", unfolded Let_def]
    have lastn: "\<not> i + 1 < length ?names \<Longrightarrow> ?names ! i = last ?names"
    proof -
      assume "\<not> i + 1 < length ?names"
      with lt have "i = length ?names - 1" by simp
      moreover from lt have "?names \<noteq> []" by auto
      ultimately show ?thesis by (simp add: last_conv_nth)
    qed
    have T: "runUntilFailure E (sys w) (map (sendOf E d) [i..<length ?names]) = (?e, ?r) # ?T'"
      unfolding up using True by simp
    show ?thesis
      unfolding Let_def T rec
      using IH True lt lastn by (auto simp: Let_def)
  qed
qed

lemma zfsPoolVolumeSnapshotCreate_run:
  "zfsPoolVolumeSnapshotCreate E s path name w =
     (let e = Exec ''zfs'' [''snapshot'', ''-r'', onDiskPoolName s @ ''/'' @ path @ ''@'' @ name];
          r = fst (run E e (sys w))
      in ((if \<not> ok r then Some (Error (''Failed to create ZFS snapshot: '' @ out r)) else None),
          World (trace w @ [(e, r)]) (snd (run E e (sys w)))))"
  by (simp add: zfsPoolVolumeSnapshotCreate_def perform_run Let_def)

lemma expectedSends_sendOf:
  "expectedSends (onDiskPoolName (zfs d)) (SplitN2 (Name (container d)) (SnapshotDelimiter E) ! 0)
     (Name (container d)) (zfsSnapshotNames d) = map (sendOf E d) [0..<length (zfsSnapshotNames d)]"
  by (simp add: expectedSends_def sendOf_def)

lemma MigrationSource_loop_names:
  "MigrationSource_loop E ct snaps driver w = ((Some d, e), w') \<Longrightarrow>
   list_all (\<lambda>n. HasPrefix n ''snapshot-'') (zfsSnapshotNames driver) \<Longrightarrow>
   list_all (\<lambda>n. HasPrefix n ''snapshot-'') (zfsSnapshotNames d)"
proof (induction snaps arbitrary: driver w)
  case Nil
  then show ?case by simp
next
  case (Cons snap rest)
  show ?case
  proof (cases "HasPrefix snap ''snapshot-''")
    case False
    with Cons show ?thesis by simp
  next
    case True
    let ?n = "Name ct @ [SnapshotDelimiter E] @ drop (length ''snapshot-'') snap"
    obtain r w1 where p: "perform E (ContainerLoadByName ?n) w = (r, w1)" by (metis prod.exhaust)
    show ?thesis
    proof (cases "ok r")
      case False
      with Cons.prems(1) True p show ?thesis by (simp add: Let_def)
    next
      case ok: True
      with Cons.prems(1) True p
      have "MigrationSource_loop E ct rest
              (driver\<lparr>snapshots := snapshots driver @ [?n],
                      zfsSnapshotNames := zfsSnapshotNames driver @ [snap]\<rparr>) w1
            = ((Some d, e), w')"
        by (simp add: Let_def)
      from Cons.IH[OF this] Cons.prems(2) True show ?thesis by simp
    qed
  qed
qed

text \<open>The drivers \<open>MigrationSource\<close> builds hold no empty snapshot name.\<close>

lemma MigrationSource_names:
  assumes "MigrationSource E s ct w = ((Some d, e), w')"
  shows "[] \<notin> set (zfsSnapshotNames d)"
proof -
  have "list_all (\<lambda>n. HasPrefix n ''snapshot-'') (zfsSnapshotNames d)"
  proof (cases "IsSnapshot ct")
    case True
    with assms show ?thesis by (auto simp: MigrationSource_def)
  next
    case False
    obtain snaps err w1 where l:
      "zfsPoolListSnapshots E s (''containers/'' @ Name ct) w = ((snaps, err), w1)"
      by (metis prod.exhaust)
    show ?thesis
    proof (cases err)
      case (Some x)
      with assms False l show ?thesis by (simp add: MigrationSource_def)
    next
      case None
      with assms False l
      have "MigrationSource_loop E ct snaps
               \<lparr>container = ct, snapshots = [], zfsSnapshotNames = [], zfs = s,
                 runningSnapName = [], stoppedSnapName = []\<rparr> w1 = ((Some d, e), w')"
        by (simp add: MigrationSource_def)
      from MigrationSource_loop_names[OF this] show ?thesis by simp
    qed
  qed
  then show ?thesis by (auto simp: list_all_iff HasPrefix_def)
qed

text \<open>
  Claim C5. For every container that is not a snapshot, with the ZFS snapshot names
  \<open>snap_1 .. snap_n\<close> of its driver (none of them empty, as \<open>MigrationSource\<close> builds
  them), \<open>SendWhileRunning\<close> runs, in this order and with nothing in between: \<open>zfs send\<close>
  of each \<open>snap_i\<close> in the order of the list, with \<open>-i snap_(i-1)\<close> exactly when it is not
  the first; the drawing of a UUID; the creation of the snapshot \<open>migration-send-<uuid>\<close>;
  and the \<open>zfs send\<close> of that snapshot with \<open>-i snap_n\<close>, or without a parent when the
  list is empty. It stops before the end of this list only at a command that failed, and
  then returns that command's error; it returns nil exactly when the last command it ran
  succeeded, which is then the send of the migration snapshot. Once the UUID is drawn,
  \<open>runningSnapName\<close> holds the name \<open>migration-send-<uuid>\<close>; before that the driver is
  unchanged. The UUID is the one the environment hands out after the sends of the
  snapshots.
\<close>

theorem SendWhileRunning_sends_in_creation_order:
  assumes nosnap: "\<not> IsSnapshot (container d)"
    and names: "[] \<notin> set (zfsSnapshotNames d)"
  shows
    "let pool = onDiskPoolName (zfs d);
         fs = SplitN2 (Name (container d)) (SnapshotDelimiter E) ! 0;
         c = Name (container d);
         sends = runUntilFailure E (sys w) (expectedSends pool fs c (zfsSnapshotNames d));
         u = out (fst (run E NewUUID (stateAfter E (sys w) sends)));
         evs = runUntilFailure E (sys w) (expectedRunning pool fs c (zfsSnapshotNames d) u)
     in SendWhileRunning E d w =
          ((if ok (snd (last evs)) then None
            else Some (Error ((case fst (last evs) of
                                 Exec cmd args \<Rightarrow> ''Failed to create ZFS snapshot: ''
                               | _ \<Rightarrow> []) @ out (snd (last evs)))),
            if NewUUID \<in> fst ` set evs then d\<lparr>runningSnapName := ''migration-send-'' @ u\<rparr>
            else d),
           World (trace w @ evs) (stateAfter E (sys w) evs))"
proof -
  let ?names = "zfsSnapshotNames d"
  let ?pool = "onDiskPoolName (zfs d)"
  let ?fs = "SplitN2 (Name (container d)) (SnapshotDelimiter E) ! 0"
  let ?c = "Name (container d)"
  let ?cmds = "map (sendOf E d) [0..<length ?names]"
  let ?T = "runUntilFailure E (sys w) ?cmds"
  let ?st1 = "stateAfter E (sys w) ?T"
  let ?w1 = "World (trace w @ ?T) ?st1"
  let ?ur = "fst (run E NewUUID ?st1)"
  let ?u = "out ?ur"
  let ?snap = "Exec ''zfs'' [''snapshot'', ''-r'',
        ?pool @ ''/containers/'' @ ?c @ ''@migration-send-'' @ ?u]"
  let ?fin = "sendCmd ?pool ?fs (''migration-send-'' @ ?u)
        (if ?names = [] then None else Some (?pool @ ''/containers/'' @ ?c @ ''@'' @ last ?names))"
  let ?evs = "runUntilFailure E (sys w) (expectedRunning ?pool ?fs ?c ?names ?u)"
  have sends: "expectedSends ?pool ?fs ?c ?names = ?cmds" by (rule expectedSends_sendOf)
  have exp: "expectedRunning ?pool ?fs ?c ?names ?u = ?cmds @ [NewUUID, ?snap, ?fin]"
    by (simp add: expectedRunning_def sends)
  note loop = SendWhileRunning_loop_exact[OF refl names, where i=0 and E=E and w=w and lastS="[]",
      unfolded Let_def]
  obtain lerr lastSnap w1' where l: "SendWhileRunning_loop E d 0 [] w = ((lerr, lastSnap), w1')"
    by (metis prod.exhaust)
  with loop have w1: "w1' = ?w1"
    and lerr: "lerr = (if ?T = [] \<or> ok (snd (last ?T)) then None
                       else Some (Error (out (snd (last ?T)))))"
    and ls: "?T = [] \<or> ok (snd (last ?T)) \<Longrightarrow>
               lastSnap = (if ?names = [] then [] else last ?names)"
    by auto
  have "NewUUID \<notin> set ?cmds" by (auto simp: sendOf_def sendCmd_def)
  with runUntilFailure_fst[of E "sys w" ?cmds] have no_uuid: "NewUUID \<notin> fst ` set ?T"
    by blast
  have goal: "SendWhileRunning E d w =
          ((if ok (snd (last ?evs)) then None
            else Some (Error ((case fst (last ?evs) of
                                 Exec cmd args \<Rightarrow> ''Failed to create ZFS snapshot: ''
                               | _ \<Rightarrow> []) @ out (snd (last ?evs)))),
            if NewUUID \<in> fst ` set ?evs then d\<lparr>runningSnapName := ''migration-send-'' @ ?u\<rparr>
            else d),
           World (trace w @ ?evs) (stateAfter E (sys w) ?evs))"
  proof (cases "?T = [] \<or> ok (snd (last ?T))")
    case False
    then have ne: "?T \<noteq> []" and bad: "\<not> ok (snd (last ?T))" by auto
    from ne have "last ?T \<in> set ?T" by simp
    then have "fst (last ?T) \<in> fst ` set ?T" by (rule imageI)
    with runUntilFailure_fst[of E "sys w" ?cmds] have mem: "fst (last ?T) \<in> set ?cmds" by auto
    then have nu: "fst (last ?T) \<noteq> NewUUID" by (auto simp: sendOf_def sendCmd_def)
    from mem have zs: "\<exists>i. fst (last ?T) = sendOf E d i" by auto
    then have cs: "(case fst (last ?T) of Exec cmd args \<Rightarrow> ''Failed to create ZFS snapshot: ''
                     | _ \<Rightarrow> []) = []"
      by (auto simp: sendOf_def sendCmd_def)
    have evs: "?evs = ?T" unfolding exp by (rule runUntilFailure_stop[OF ne bad nu])
    from False lerr have "lerr = Some (Error (out (snd (last ?T))))" by simp
    with nosnap l w1 have "SendWhileRunning E d w = ((Some (Error (out (snd (last ?T)))), d), ?w1)"
      by (simp add: SendWhileRunning_def)
    then show ?thesis unfolding evs using bad no_uuid cs by simp
  next
    case True
    then have c: "?cmds = [] \<or> ok (snd (last ?T)) \<or> fst (last ?T) = NewUUID" by auto
    let ?st2 = "snd (run E NewUUID ?st1)"
    let ?sr = "fst (run E ?snap ?st2)"
    let ?st3 = "snd (run E ?snap ?st2)"
    let ?fr = "fst (run E ?fin ?st3)"
    let ?st4 = "snd (run E ?fin ?st3)"
    let ?tail = "(NewUUID, ?ur) # (?snap, ?sr) # (if ok ?sr then [(?fin, ?fr)] else [])"
    have evs: "?evs = ?T @ ?tail"
      unfolding exp runUntilFailure_continue[OF c] by simp
    from True lerr have none: "lerr = None" by simp
    from ls[OF True] have lsv: "lastSnap = (if ?names = [] then [] else last ?names)" .
    have lsne: "lastSnap \<noteq> [] \<longleftrightarrow> ?names \<noteq> []"
      using lsv names by (auto dest: last_in_set)
    let ?d1 = "d\<lparr>runningSnapName := ''migration-send-'' @ ?u\<rparr>"
    let ?w2 = "World (trace w @ ?T @ [(NewUUID, ?ur)]) ?st2"
    let ?w3 = "World (trace w @ ?T @ [(NewUUID, ?ur), (?snap, ?sr)]) ?st3"
    let ?w4 = "World (trace w @ ?T @ [(NewUUID, ?ur), (?snap, ?sr), (?fin, ?fr)]) ?st4"
    have fin: "send E ?d1 (''migration-send-'' @ ?u) lastSnap ?w3
        = ((if ok ?fr then None else Some (Error (out ?fr))), ?w4)"
      using lsne lsv by (simp add: send_run Let_def)
    have in_uuid: "NewUUID \<in> fst ` set ?evs" unfolding evs by simp
    show ?thesis
    proof (cases "ok ?sr")
      case False
      with nosnap l w1 none
      have "SendWhileRunning E d w
          = ((Some (Error (''Failed to create ZFS snapshot: '' @ out ?sr)), ?d1), ?w3)"
        by (simp add: SendWhileRunning_def perform_run zfsPoolVolumeSnapshotCreate_run Let_def)
      moreover have "?evs = ?T @ [(NewUUID, ?ur), (?snap, ?sr)]" unfolding evs using False by simp
      ultimately show ?thesis using False by (simp add: stateAfter_append)
    next
      case ok: True
      with nosnap l w1 none fin
      have "SendWhileRunning E d w
          = (((if ok ?fr then None else Some (Error (out ?fr))), ?d1), ?w4)"
        by (simp add: SendWhileRunning_def perform_run zfsPoolVolumeSnapshotCreate_run Let_def)
      moreover have "?evs = ?T @ [(NewUUID, ?ur), (?snap, ?sr), (?fin, ?fr)]"
        unfolding evs using ok by simp
      ultimately show ?thesis by (simp add: stateAfter_append sendCmd_def)
    qed
  qed
  show ?thesis unfolding Let_def sends using goal unfolding sends .
qed

theorem SendWhileRunning_sends_in_creation_order_witness:
  "SendWhileRunning (testEnv (tableOracle [(NewUUID, Response True ''u1'')]))
      \<lparr>container = testContainer ''c'', snapshots = [''c/s1'', ''c/s2''],
        zfsSnapshotNames = [''snapshot-s1'', ''snapshot-s2''], zfs = testPool,
        runningSnapName = [], stoppedSnapName = []\<rparr> (World [] ())
   = ((None,
       \<lparr>container = testContainer ''c'', snapshots = [''c/s1'', ''c/s2''],
        zfsSnapshotNames = [''snapshot-s1'', ''snapshot-s2''], zfs = testPool,
        runningSnapName = ''migration-send-u1'', stoppedSnapName = []\<rparr>),
      World [(ZfsSend [''send'', ''p/containers/c@snapshot-s1''], Response True []),
             (ZfsSend [''send'', ''p/containers/c@snapshot-s2'', ''-i'',
                       ''p/containers/c@snapshot-s1''], Response True []),
             (NewUUID, Response True ''u1''),
             (Exec ''zfs'' [''snapshot'', ''-r'', ''p/containers/c@migration-send-u1''],
              Response True []),
             (ZfsSend [''send'', ''p/containers/c@migration-send-u1'', ''-i'',
                       ''p/containers/c@snapshot-s2''], Response True [])] ())
   \<and> SendWhileRunning (testEnv replayOracle)
      \<lparr>container = testContainer ''c'', snapshots = [''c/s1'', ''c/s2''],
        zfsSnapshotNames = [''snapshot-s1'', ''snapshot-s2''], zfs = testPool,
        runningSnapName = [], stoppedSnapName = []\<rparr>
      (World [] [Response True [], Response False ''broken pipe''])
   = ((Some (Error ''broken pipe''),
       \<lparr>container = testContainer ''c'', snapshots = [''c/s1'', ''c/s2''],
        zfsSnapshotNames = [''snapshot-s1'', ''snapshot-s2''], zfs = testPool,
        runningSnapName = [], stoppedSnapName = []\<rparr>),
      World [(ZfsSend [''send'', ''p/containers/c@snapshot-s1''], Response True []),
             (ZfsSend [''send'', ''p/containers/c@snapshot-s2'', ''-i'',
                       ''p/containers/c@snapshot-s1''], Response False ''broken pipe'')] [])
   \<and> SendWhileRunning (testEnv replayOracle)
      \<lparr>container = testContainer ''c'', snapshots = [],
        zfsSnapshotNames = [], zfs = testPool,
        runningSnapName = [], stoppedSnapName = []\<rparr>
      (World [] [Response True ''u2'', Response False ''no space''])
   = ((Some (Error ''Failed to create ZFS snapshot: no space''),
       \<lparr>container = testContainer ''c'', snapshots = [],
        zfsSnapshotNames = [], zfs = testPool,
        runningSnapName = ''migration-send-u2'', stoppedSnapName = []\<rparr>),
      World [(NewUUID, Response True ''u2''),
             (Exec ''zfs'' [''snapshot'', ''-r'', ''p/containers/c@migration-send-u2''],
              Response False ''no space'')] [])"
proof -
  let ?d = "\<lparr>container = testContainer ''c'', snapshots = [''c/s1'', ''c/s2''],
        zfsSnapshotNames = [''snapshot-s1'', ''snapshot-s2''], zfs = testPool,
        runningSnapName = [], stoppedSnapName = []\<rparr>"
  let ?e = "\<lparr>container = testContainer ''c'', snapshots = [],
        zfsSnapshotNames = [], zfs = testPool,
        runningSnapName = [], stoppedSnapName = []\<rparr>"
  have a: "\<not> IsSnapshot (container ?d)" by (simp add: testContainer_def)
  have b: "[] \<notin> set (zfsSnapshotNames ?d)" by simp
  have a0: "\<not> IsSnapshot (container ?e)" by (simp add: testContainer_def)
  have b0: "[] \<notin> set (zfsSnapshotNames ?e)" by simp
  note t1 = SendWhileRunning_sends_in_creation_order[where d="?d"
      and E="testEnv (tableOracle [(NewUUID, Response True ''u1'')])" and w="World [] ()", OF a b]
  note t2 = SendWhileRunning_sends_in_creation_order[where d="?d" and E="testEnv replayOracle"
      and w="World [] [Response True [], Response False ''broken pipe'']", OF a b]
  note t3 = SendWhileRunning_sends_in_creation_order[where d="?e" and E="testEnv replayOracle"
      and w="World [] [Response True ''u2'', Response False ''no space'']", OF a0 b0]
  from t1 have r1: "SendWhileRunning (testEnv (tableOracle [(NewUUID, Response True ''u1'')]))
      ?d (World [] ())
   = ((None, ?d\<lparr>runningSnapName := ''migration-send-u1''\<rparr>),
      World [(ZfsSend [''send'', ''p/containers/c@snapshot-s1''], Response True []),
             (ZfsSend [''send'', ''p/containers/c@snapshot-s2'', ''-i'',
                       ''p/containers/c@snapshot-s1''], Response True []),
             (NewUUID, Response True ''u1''),
             (Exec ''zfs'' [''snapshot'', ''-r'', ''p/containers/c@migration-send-u1''],
              Response True []),
             (ZfsSend [''send'', ''p/containers/c@migration-send-u1'', ''-i'',
                       ''p/containers/c@snapshot-s2''], Response True [])] ())"
    by (simp add: Let_def expectedRunning_def expectedSends_def sendCmd_def testEnv_def
        tableOracle_def testContainer_def testPool_def onDiskPoolName_def SplitN2_def)
  from t2 have r2: "SendWhileRunning (testEnv replayOracle) ?d
      (World [] [Response True [], Response False ''broken pipe''])
   = ((Some (Error ''broken pipe''), ?d),
      World [(ZfsSend [''send'', ''p/containers/c@snapshot-s1''], Response True []),
             (ZfsSend [''send'', ''p/containers/c@snapshot-s2'', ''-i'',
                       ''p/containers/c@snapshot-s1''], Response False ''broken pipe'')] [])"
    by (simp add: Let_def expectedRunning_def expectedSends_def sendCmd_def testEnv_def
        replayOracle_def testContainer_def testPool_def onDiskPoolName_def SplitN2_def)
  from t3 have r3: "SendWhileRunning (testEnv replayOracle) ?e
      (World [] [Response True ''u2'', Response False ''no space''])
   = ((Some (Error ''Failed to create ZFS snapshot: no space''),
       ?e\<lparr>runningSnapName := ''migration-send-u2''\<rparr>),
      World [(NewUUID, Response True ''u2''),
             (Exec ''zfs'' [''snapshot'', ''-r'', ''p/containers/c@migration-send-u2''],
              Response False ''no space'')] [])"
    by (simp add: Let_def expectedRunning_def expectedSends_def sendCmd_def testEnv_def
        replayOracle_def testContainer_def testPool_def onDiskPoolName_def SplitN2_def)
  from r1 r2 r3 show ?thesis by simp
qed

subsection \<open>Restoring a snapshot\<close>

lemma zfsPoolListSnapshots_run:
  "zfsPoolListSnapshots E s path w =
     (let r = fst (run E (listSnapshotsCmd s path) (sys w))
      in ((case snapshotsListed s path r of
             Some children \<Rightarrow> (children, None)
           | None \<Rightarrow> ([], Some (if \<not> ok r then Error (''Failed to list ZFS snapshots: '' @ out r)
                                  else (case snapshotChildren (snapshotsFullPath s path)
                                               (Split (out r) newline) of Inl p \<Rightarrow> p)))),
          World (trace w @ [(listSnapshotsCmd s path, r)])
                (snd (run E (listSnapshotsCmd s path) (sys w)))))"
  by (simp add: zfsPoolListSnapshots_def perform_run listSnapshotsCmd_def snapshotsListed_def
      snapshotsFullPath_def Let_def split: sum.splits)

lemma zfsPoolListSubvolumes_run:
  "zfsPoolListSubvolumes E s path w =
     (let r = fst (run E (listSubvolumesCmd path) (sys w))
      in ((if \<not> ok r then ([], Some (Error (''Failed to list ZFS filesystems: '' @ out r)))
           else (subvolumesListed s path r, None)),
          World (trace w @ [(listSubvolumesCmd path, r)])
                (snd (run E (listSubvolumesCmd path) (sys w)))))"
  by (simp add: zfsPoolListSubvolumes_def perform_run listSubvolumesCmd_def subvolumesListed_def
      Let_def)

lemma restore_subvols_run:
  "zfsPoolVolumeSnapshotRestore_subvols E s name subvols w = (None, w') \<Longrightarrow>
     \<exists>T. trace w' = trace w @ T \<and> subvolRollbacks s name subvols T"
proof (induction subvols arbitrary: w)
  case Nil
  then show ?case by simp
next
  case (Cons sub subvols)
  let ?r = "fst (run E (listSnapshotsCmd s sub) (sys w))"
  let ?w1 = "World (trace w @ [(listSnapshotsCmd s sub, ?r)])
                (snd (run E (listSnapshotsCmd s sub) (sys w)))"
  show ?case
  proof (cases "snapshotsListed s sub ?r")
    case None
    with Cons.prems show ?thesis by (simp add: zfsPoolListSnapshots_run Let_def)
  next
    case (Some snaps)
    show ?thesis
    proof (cases "name \<in> set snaps")
      case False
      with Cons.prems Some
      have "zfsPoolVolumeSnapshotRestore_subvols E s name subvols ?w1 = (None, w')"
        by (simp add: zfsPoolListSnapshots_run Let_def StringInSlice_set)
      from Cons.IH[OF this] obtain T where "trace w' = trace ?w1 @ T" "subvolRollbacks s name subvols T"
        by blast
      with Some False show ?thesis
        by (intro exI[of _ "(listSnapshotsCmd s sub, ?r) # T"]) simp
    next
      case True
      let ?r2 = "fst (run E (rollbackCmd s sub name) (sys ?w1))"
      let ?w2 = "World (trace ?w1 @ [(rollbackCmd s sub name, ?r2)])
                (snd (run E (rollbackCmd s sub name) (sys ?w1)))"
      from Cons.prems Some True
      have ok2: "ok ?r2"
        and rec: "zfsPoolVolumeSnapshotRestore_subvols E s name subvols ?w2 = (None, w')"
        by (auto simp: zfsPoolListSnapshots_run Let_def StringInSlice_set perform_run
            rollbackCmd_def split: if_splits)
      from Cons.IH[OF rec] obtain T where "trace w' = trace ?w2 @ T" "subvolRollbacks s name subvols T"
        by blast
      with Some True ok2 show ?thesis
        by (intro exI[of _ "(listSnapshotsCmd s sub, ?r) # (rollbackCmd s sub name, ?r2) # T"]) simp
    qed
  qed
qed


lemma newer_snoc:
  assumes "src \<in> set xs"
  shows "tl (dropWhile (\<lambda>n. n \<noteq> src) (xs @ [x])) = tl (dropWhile (\<lambda>n. n \<noteq> src) xs) @ [x]"
proof -
  from assms have "dropWhile (\<lambda>n. n \<noteq> src) (xs @ [x]) = dropWhile (\<lambda>n. n \<noteq> src) xs @ [x]"
    by (intro dropWhile_append1[of src]) auto
  moreover from assms have "dropWhile (\<lambda>n. n \<noteq> src) xs \<noteq> []"
    by (auto simp: dropWhile_eq_Nil_conv)
  ultimately show ?thesis by simp
qed

lemma newer_last:
  assumes "src \<notin> set xs"
  shows "tl (dropWhile (\<lambda>n. n \<noteq> src) (xs @ [src])) = []"
proof -
  from assms have "dropWhile (\<lambda>n. n \<noteq> src) xs = []" by (auto simp: dropWhile_eq_Nil_conv)
  with assms show ?thesis by (simp add: dropWhile_append)
qed

lemma ContainerRestore_loop_run:
  "k < length snaps \<Longrightarrow> src \<in> set (take (Suc k) snaps) \<Longrightarrow> distinct snaps \<Longrightarrow>
   ContainerRestore_loop E snaps src (int k) w = (None, w') \<Longrightarrow>
     \<exists>T. trace w' = trace w @ T
       \<and> map fst T = map SnapshotDelete (rev (tl (dropWhile (\<lambda>n. n \<noteq> src) (take (Suc k) snaps))))
       \<and> list_all (\<lambda>ev. ok (snd ev)) T"
proof (induction k arbitrary: w)
  case 0
  then have "w' = w" by (simp add: ContainerRestore_loop.simps)
  moreover from 0 have "take (Suc 0) snaps = [src]" by (cases snaps) auto
  ultimately show ?case by simp
next
  case (Suc k)
  have tk: "take (Suc (Suc k)) snaps = take (Suc k) snaps @ [snaps ! Suc k]"
    using Suc.prems(1) by (simp add: take_Suc_conv_app_nth)
  have notin: "snaps ! Suc k \<notin> set (take (Suc k) snaps)"
  proof -
    from Suc.prems(3) have "distinct (take (Suc (Suc k)) snaps)" by simp
    then show ?thesis unfolding tk by simp
  qed
  show ?case
  proof (cases "snaps ! Suc k = src")
    case True
    with Suc.prems(1,4) have "w' = w"
      by (simp add: ContainerRestore_loop.simps[of E snaps src "int (Suc k)"] del: of_nat_Suc)
    moreover from True notin tk
    have "tl (dropWhile (\<lambda>n. n \<noteq> src) (take (Suc (Suc k)) snaps)) = []"
      using newer_last[of src "take (Suc k) snaps"] by simp
    ultimately show ?thesis by simp
  next
    case False
    let ?e = "SnapshotDelete (snaps ! Suc k)"
    let ?r = "fst (run E ?e (sys w))"
    let ?w1 = "World (trace w @ [(?e, ?r)]) (snd (run E ?e (sys w)))"
    have i1: "int (Suc k) - 1 = int k" by simp
    from Suc.prems(1,4) False
    have okr: "ok ?r" and rec: "ContainerRestore_loop E snaps src (int k) ?w1 = (None, w')"
      by (auto simp: ContainerRestore_loop.simps[of E snaps src "int (Suc k)"] perform_run
          i1 simp del: of_nat_Suc split: if_splits)
    from Suc.prems(2) False tk have src_in: "src \<in> set (take (Suc k) snaps)" by auto
    from Suc.IH[OF _ src_in Suc.prems(3) rec] Suc.prems(1)
    obtain T where T: "trace w' = trace ?w1 @ T"
      "map fst T = map SnapshotDelete (rev (tl (dropWhile (\<lambda>n. n \<noteq> src) (take (Suc k) snaps))))"
      "list_all (\<lambda>ev. ok (snd ev)) T"
      by auto
    have "tl (dropWhile (\<lambda>n. n \<noteq> src) (take (Suc (Suc k)) snaps))
        = tl (dropWhile (\<lambda>n. n \<noteq> src) (take (Suc k) snaps)) @ [snaps ! Suc k]"
      unfolding tk using newer_snoc[OF src_in] .
    with T okr show ?thesis
      by (intro exI[of _ "(?e, ?r) # T"]) simp
  qed
qed


lemma ContainerRestore_trace:
  assumes snaps: "Snapshots c = (snaps, None)" "Name src \<in> set snaps" "distinct snaps"
    and delim: "SnapshotDelimiter E \<in> set (Name src)"
    and run: "ContainerRestore E s c src w = (None, w')"
  shows "\<exists>Tdel r0 r1 Tsub.
      events w w' =
        Tdel @ [(rollbackCmd s (''containers/'' @ takeWhile (\<lambda>x. x \<noteq> SnapshotDelimiter E) (Name src))
                   (''snapshot-'' @ tl (dropWhile (\<lambda>x. x \<noteq> SnapshotDelimiter E) (Name src))), r0),
                (listSubvolumesCmd (onDiskPoolName s @ ''/'' @ ''containers/''
                   @ takeWhile (\<lambda>x. x \<noteq> SnapshotDelimiter E) (Name src)), r1)] @ Tsub
    \<and> map fst Tdel = map SnapshotDelete (rev (tl (dropWhile (\<lambda>n. n \<noteq> Name src) snaps)))
    \<and> list_all (\<lambda>ev. ok (snd ev)) Tdel \<and> ok r0 \<and> ok r1
    \<and> subvolRollbacks s (''snapshot-'' @ tl (dropWhile (\<lambda>x. x \<noteq> SnapshotDelimiter E) (Name src)))
         (subvolumesListed s (onDiskPoolName s @ ''/'' @ ''containers/''
            @ takeWhile (\<lambda>x. x \<noteq> SnapshotDelimiter E) (Name src)) r1) Tsub"
proof -
  let ?cn = "takeWhile (\<lambda>x. x \<noteq> SnapshotDelimiter E) (Name src)"
  let ?sn = "tl (dropWhile (\<lambda>x. x \<noteq> SnapshotDelimiter E) (Name src))"
  let ?name = "''snapshot-'' @ ?sn"
  let ?path = "''containers/'' @ ?cn"
  from snaps(2) have ne: "snaps \<noteq> []" by auto
  then obtain k where k: "length snaps = Suc k" by (cases snaps) auto
  obtain lerr w1 where loop: "ContainerRestore_loop E snaps (Name src) (int k) w = (lerr, w1)"
    by (metis prod.exhaust)
  have ik: "int (length snaps) - 1 = int k" using k by simp
  have fields: "SplitN2 (Name src) (SnapshotDelimiter E) = [?cn, ?sn]"
    using delim by (simp add: SplitN2_def)
  have lnone: "lerr = None"
    using run snaps(1) loop ik by (cases lerr) (simp_all add: ContainerRestore_def)
  with run snaps(1) loop ik fields
  have rest: "zfsPoolVolumeSnapshotRestore E s ?path ?name w1 = (None, w')"
    by (simp add: ContainerRestore_def Let_def)
  from k snaps(2) have "Name src \<in> set (take (Suc k) snaps)" by simp
  from ContainerRestore_loop_run[OF _ this snaps(3) loop[unfolded lnone]] k
  obtain Tdel where Tdel: "trace w1 = trace w @ Tdel"
    "map fst Tdel = map SnapshotDelete (rev (tl (dropWhile (\<lambda>n. n \<noteq> Name src) snaps)))"
    "list_all (\<lambda>ev. ok (snd ev)) Tdel"
    by auto
  let ?r0 = "fst (run E (rollbackCmd s ?path ?name) (sys w1))"
  let ?w2 = "World (trace w1 @ [(rollbackCmd s ?path ?name, ?r0)])
                (snd (run E (rollbackCmd s ?path ?name) (sys w1)))"
  let ?lc = "listSubvolumesCmd (onDiskPoolName s @ ''/'' @ ?path)"
  let ?r1 = "fst (run E ?lc (sys ?w2))"
  let ?w3 = "World (trace ?w2 @ [(?lc, ?r1)]) (snd (run E ?lc (sys ?w2)))"
  from rest have ok0: "ok ?r0"
    by (auto simp: zfsPoolVolumeSnapshotRestore_def perform_run rollbackCmd_def split: if_splits)
  with rest have ok1: "ok ?r1"
    and sub: "zfsPoolVolumeSnapshotRestore_subvols E s ?name
                (subvolumesListed s (onDiskPoolName s @ ''/'' @ ?path) ?r1) ?w3 = (None, w')"
    by (auto simp: zfsPoolVolumeSnapshotRestore_def perform_run rollbackCmd_def
        zfsPoolListSubvolumes_run Let_def split: if_splits)
  from restore_subvols_run[OF sub]
  obtain Tsub where Tsub: "trace w' = trace ?w3 @ Tsub"
    "subvolRollbacks s ?name (subvolumesListed s (onDiskPoolName s @ ''/'' @ ?path) ?r1) Tsub"
    by blast
  from Tsub(1) Tdel(1)
  have "events w w' = Tdel @ [(rollbackCmd s ?path ?name, ?r0), (?lc, ?r1)] @ Tsub"
    by (simp add: events_def)
  with Tdel(2,3) ok0 ok1 Tsub(2) show ?thesis by (simp del: append.simps) blast
qed


lemma subvolume_path_without_dataset:
  "dataset s = [] \<Longrightarrow> HasPrefix entry (poolName s @ ''/'') \<Longrightarrow>
     onDiskPoolName s @ ''/'' @ TrimPrefix entry (poolName s @ ''/'') = entry"
  by (simp add: onDiskPoolName_def TrimPrefix_def HasPrefix_def)
     (metis append_Cons append_Nil append_assoc append_take_drop_id)

lemma subvolume_path_with_dataset:
  assumes "dataset s \<noteq> []" "dataset s \<noteq> poolName s" "HasPrefix entry (dataset s @ ''/'')"
  shows "onDiskPoolName s @ ''/'' @ TrimPrefix entry (poolName s @ ''/'') \<noteq> entry"
proof (cases "HasPrefix entry (poolName s @ ''/'')")
  case False
  have "length (dataset s @ ''/'' @ entry) \<noteq> length entry" by simp
  then have "dataset s @ ''/'' @ entry \<noteq> entry" by metis
  with False assms(1) show ?thesis by (simp add: onDiskPoolName_def TrimPrefix_def)
next
  case True
  then obtain rest where e: "entry = (poolName s @ ''/'') @ rest"
    by (metis HasPrefix_def append_take_drop_id)
  then have tp: "TrimPrefix entry (poolName s @ ''/'') = rest"
    using True by (simp add: TrimPrefix_def)
  show ?thesis
  proof
    assume "onDiskPoolName s @ ''/'' @ TrimPrefix entry (poolName s @ ''/'') = entry"
    with assms(1) tp e have "dataset s @ ''/'' @ rest = poolName s @ ''/'' @ rest"
      by (simp add: onDiskPoolName_def)
    then have "dataset s = poolName s" by simp
    with assms(2) show False by simp
  qed
qed

text \<open>
  Claim C3 says that \<open>ContainerRestore\<close> deletes exactly the snapshots newer than the chosen
  one, newest first, then rolls back \<open>containers/<n>@snapshot-<s>\<close> and every sub-dataset
  of \<open>containers/<n>\<close> that has a snapshot of that name. \<open>ContainerRestore_trace\<close> above
  shows the deletions, the rollback of the root and the loop over the listed sub-volumes.
  But \<open>zfsPoolListSubvolumes\<close> strips \<open>s.pool.Name\<close> from the names it lists, while every
  other helper prefixes with \<open>s.dataset\<close> when it is set. On a pool whose source is the
  dataset \<open>tank/lxd\<close> the sub-volume \<open>tank/lxd/containers/c/sub\<close>, which has the snapshot, is
  therefore looked up as \<open>tank/lxd/tank/lxd/containers/c/sub\<close>: the restore fails after the
  rollback of the root, and the sub-volume is not rolled back.
\<close>

theorem ContainerRestore_skips_subvolume_of_dataset_pool:
  "ContainerRestore (testEnv (tableOracle subvolumeTable)) datasetPool
      ((testContainer ''c'')\<lparr>Snapshots := ([''c/s0'', ''c/s1''], None)\<rparr>)
      (testContainer ''c/s0'') (World [] ())
   = (Some (Error (''Failed to list ZFS snapshots: '' @
              ''cannot open tank/lxd/tank/lxd/containers/c/sub: dataset does not exist'')),
      World [(SnapshotDelete ''c/s1'', Response True []),
             (TryExec ''zfs'' [''rollback'', ''tank/lxd/containers/c@snapshot-s0''], Response True []),
             (listSubvolumesCmd ''tank/lxd/containers/c'',
              Response True (''tank/lxd/containers/c'' @ [newline] @ ''tank/lxd/containers/c/sub''
                      @ [newline])),
             (Exec ''zfs'' [''list'', ''-t'', ''snapshot'', ''-o'', ''name'', ''-H'', ''-d'', ''1'',
                     ''-s'', ''creation'', ''-r'', ''tank/lxd/tank/lxd/containers/c/sub''],
              Response False ''cannot open tank/lxd/tank/lxd/containers/c/sub: dataset does not exist'')]
        ())"
  by (simp add: ContainerRestore_def ContainerRestore_loop.simps zfsPoolVolumeSnapshotRestore_def
      zfsPoolListSubvolumes_def zfsPoolListSnapshots_def perform_run
      testEnv_def tableOracle_def subvolumeTable_def listSubvolumesCmd_def
      datasetPool_def testPool_def testContainer_def onDiskPoolName_def SplitN2_def Let_def
      TrimRight_def TrimPrefix_def HasPrefix_def newline_def)

end
